theory Spec2Isabelle
  imports Main "HOL-Library.Word"
begin

section \<open>Values and errors\<close>

text \<open>
  A byte of a \<^verbatim>\<open>Uint8Array\<close> or an \<^verbatim>\<open>ArrayBuffer\<close> is an 8-bit word. The JavaScript
  numbers that the code uses as lengths, offsets and field values are integers, and are
  integers here (JavaScript computes with them exactly below \<open>2 ^ 53\<close>); the conversions
  that the typed-array and \<^verbatim>\<open>DataView\<close> setters apply to them (\<^verbatim>\<open>ToUint8\<close>,
  \<^verbatim>\<open>ToUint16\<close>, \<^verbatim>\<open>ToUint32\<close>: reduction modulo \<open>2 ^ 8\<close>, \<open>2 ^ 16\<close>, \<open>2 ^ 32\<close>) are
  written out.
  An exception is a value of type \<open>error\<close>; a computation that may throw returns
  \<open>error + 'a\<close>, with \<open>Inl\<close> for the exception.
\<close>

type_synonym u8 = "8 word"

text \<open>
  A JavaScript string is the list of its UTF-16 code units; \<open>lit\<close> is the string of a
  literal written in ASCII.
\<close>

type_synonym js_string = "nat list"

definition lit :: "string \<Rightarrow> js_string" where
  "lit s = map of_char s"

datatype error =
    RangeError
  | InvalidCharacterError
  | TypeError
  | SqliteError
  | Error string

definition bind_result :: "error + 'a \<Rightarrow> ('a \<Rightarrow> error + 'b) \<Rightarrow> error + 'b" where
  "bind_result m f = (case m of Inl e \<Rightarrow> Inl e | Inr v \<Rightarrow> f v)"

definition ToUint8 :: "int \<Rightarrow> u8" where
  "ToUint8 v = word_of_int (v mod 2 ^ 8)"

section \<open>DataView setters\<close>

text \<open>
  A \<^verbatim>\<open>DataView\<close> over an \<^verbatim>\<open>ArrayBuffer\<close> is the list of the buffer's bytes, passed through
  the setters and returned updated. A setter throws \<^verbatim>\<open>RangeError\<close> when the bytes it writes
  do not lie inside the buffer.
\<close>

definition setUint8 :: "u8 list \<Rightarrow> nat \<Rightarrow> int \<Rightarrow> error + u8 list" where
  "setUint8 view byteOffset v =
     (if byteOffset + 1 > length view then Inl RangeError
      else Inr (view[byteOffset := ToUint8 v]))"

definition setUint16 :: "u8 list \<Rightarrow> nat \<Rightarrow> int \<Rightarrow> bool \<Rightarrow> error + u8 list" where
  "setUint16 view byteOffset v littleEndian =
     (if byteOffset + 2 > length view then Inl RangeError
      else let n = v mod 2 ^ 16;
               b0 = ToUint8 n;
               b1 = ToUint8 (n div 2 ^ 8)
           in Inr (if littleEndian
                   then view[byteOffset := b0, byteOffset + 1 := b1]
                   else view[byteOffset := b1, byteOffset + 1 := b0]))"

definition setUint32 :: "u8 list \<Rightarrow> nat \<Rightarrow> int \<Rightarrow> bool \<Rightarrow> error + u8 list" where
  "setUint32 view byteOffset v littleEndian =
     (if byteOffset + 4 > length view then Inl RangeError
      else let n = v mod 2 ^ 32;
               b0 = ToUint8 n;
               b1 = ToUint8 (n div 2 ^ 8);
               b2 = ToUint8 (n div 2 ^ 16);
               b3 = ToUint8 (n div 2 ^ 24)
           in Inr (if littleEndian
                   then view[byteOffset := b0, byteOffset + 1 := b1,
                             byteOffset + 2 := b2, byteOffset + 3 := b3]
                   else view[byteOffset := b3, byteOffset + 1 := b2,
                             byteOffset + 2 := b1, byteOffset + 3 := b0]))"

section \<open>The WAV header (geminiService.ts)\<close>

text \<open>
  \<^verbatim>\<open>string.charCodeAt(i)\<close>. Outside the string it is \<^verbatim>\<open>NaN\<close>, which the setters store
  as 0, so it is 0 here; the two loops that call it stop at the length.
\<close>

definition charCodeAt :: "js_string \<Rightarrow> nat \<Rightarrow> int" where
  "charCodeAt s i = (if i < length s then int (s ! i) else 0)"

text \<open>
  \<^verbatim>\<open>writeString\<close>: the loop \<^verbatim>\<open>for (let i = 0; i < string.length; i++)\<close> that stores one
  character code per byte from \<open>offset\<close> on.
\<close>

function writeString_loop :: "u8 list \<Rightarrow> nat \<Rightarrow> js_string \<Rightarrow> nat \<Rightarrow> error + u8 list" where
  "writeString_loop view offset s i =
     (if i < length s
      then bind_result (setUint8 view (offset + i) (charCodeAt s i))
             (\<lambda>view'. writeString_loop view' offset s (i + 1))
      else Inr view)"
  by pat_completeness auto
termination
  by (relation "measure (\<lambda>(view, offset, s, i). length s - i)") auto

declare writeString_loop.simps [simp del]

definition writeString :: "u8 list \<Rightarrow> nat \<Rightarrow> js_string \<Rightarrow> error + u8 list" where
  "writeString view offset s = writeString_loop view offset s 0"

text \<open>
  \<^verbatim>\<open>createWavHeader(dataLength, sampleRate)\<close>: a zero-filled buffer of 44 bytes, thirteen
  writes through the view, and the buffer returned as a \<^verbatim>\<open>Uint8Array\<close>.
\<close>

definition createWavHeader :: "int \<Rightarrow> int \<Rightarrow> error + u8 list" where
  "createWavHeader dataLength sampleRate =
     bind_result (writeString (replicate 44 0) 0 (lit ''RIFF'')) (\<lambda>view.
     bind_result (setUint32 view 4 (36 + dataLength) True) (\<lambda>view.
     bind_result (writeString view 8 (lit ''WAVE'')) (\<lambda>view.
     bind_result (writeString view 12 (lit ''fmt '')) (\<lambda>view.
     bind_result (setUint32 view 16 16 True) (\<lambda>view.
     bind_result (setUint16 view 20 1 True) (\<lambda>view.
     bind_result (setUint16 view 22 1 True) (\<lambda>view.
     bind_result (setUint32 view 24 sampleRate True) (\<lambda>view.
     bind_result (setUint32 view 28 (sampleRate * 2) True) (\<lambda>view.
     bind_result (setUint16 view 32 2 True) (\<lambda>view.
     bind_result (setUint16 view 34 16 True) (\<lambda>view.
     bind_result (writeString view 36 (lit ''data'')) (\<lambda>view.
     bind_result (setUint32 view 40 dataLength True) (\<lambda>view.
     Inr view)))))))))))))"

section \<open>Reading a header back\<close>

text \<open>
  What a reader of the format sees: an unsigned little-endian integer is the sum of its
  bytes weighted by powers of 256, a tag is the list of the character codes of its ASCII
  string, and a field is a number of bytes from an offset.
\<close>

fun uint_le :: "u8 list \<Rightarrow> int" where
  "uint_le [] = 0"
| "uint_le (b # bs) = uint b + 256 * uint_le bs"

definition char_codes :: "js_string \<Rightarrow> u8 list" where
  "char_codes s = map (\<lambda>c. ToUint8 (int c)) s"

definition field :: "nat \<Rightarrow> nat \<Rightarrow> u8 list \<Rightarrow> u8 list" where
  "field byteOffset n buf = take n (drop byteOffset buf)"

text \<open>The text that bytes spell when each is read as one character.\<close>

definition ascii_of :: "u8 list \<Rightarrow> string" where
  "ascii_of bytes = map (\<lambda>b. char_of (unat b)) bytes"

section \<open>Properties of the header\<close>

definition le_bytes16 :: "int \<Rightarrow> u8 list" where
  "le_bytes16 v = [ToUint8 (v mod 2 ^ 16), ToUint8 (v mod 2 ^ 16 div 2 ^ 8)]"

definition le_bytes32 :: "int \<Rightarrow> u8 list" where
  "le_bytes32 v = [ToUint8 (v mod 2 ^ 32), ToUint8 (v mod 2 ^ 32 div 2 ^ 8),
                   ToUint8 (v mod 2 ^ 32 div 2 ^ 16), ToUint8 (v mod 2 ^ 32 div 2 ^ 24)]"

lemma bind_result_Inr [simp]: "bind_result (Inr v) f = f v"
  by (simp add: bind_result_def)

lemma bind_result_Inl [simp]: "bind_result (Inl e) f = Inl e"
  by (simp add: bind_result_def)

lemma uint_ToUint8: "uint (ToUint8 n) = n mod 256"
  by (simp add: ToUint8_def uint_word_of_int take_bit_eq_mod)

lemma mod_split_256:
  fixes n :: int
  assumes "0 \<le> m"
  shows "n mod (256 * m) = n mod 256 + 256 * (n div 256 mod m)"
  using assms by (simp add: zmod_zmult2_eq)

lemma le16_arith:
  fixes n :: int
  shows "n mod 256 + 256 * (n div 256 mod 256) = n mod 65536"
  using mod_split_256 [of 256 n] by simp

lemma le32_arith:
  fixes n :: int
  shows "n mod 256 + 256 * (n div 256 mod 256) + 65536 * (n div 65536 mod 256)
     + 16777216 * (n div 16777216 mod 256) = n mod 4294967296"
proof -
  have d2: "n div 65536 = n div 256 div 256"
    using zdiv_zmult2_eq [of 256 n 256] by simp
  have d3: "n div 16777216 = n div 256 div 256 div 256"
    using zdiv_zmult2_eq [of 65536 n 256] zdiv_zmult2_eq [of 256 "n div 256" 256] by simp
  have s1: "n mod 4294967296 = n mod 256 + 256 * (n div 256 mod 16777216)"
    using mod_split_256 [of 16777216 n] by simp
  have s2: "n div 256 mod 16777216 = n div 256 mod 256 + 256 * (n div 256 div 256 mod 65536)"
    using mod_split_256 [of 65536 "n div 256"] by simp
  have s3: "n div 256 div 256 mod 65536 =
      n div 256 div 256 mod 256 + 256 * (n div 256 div 256 div 256 mod 256)"
    using mod_split_256 [of 256 "n div 256 div 256"] by simp
  show ?thesis
    unfolding d2 d3 s1 s2 s3 by simp
qed

lemma uint_le_le_bytes32: "uint_le (le_bytes32 v) = v mod 2 ^ 32"
proof -
  have "uint_le (le_bytes32 v) =
      (v mod 4294967296) mod 256 + 256 * ((v mod 4294967296) div 256 mod 256)
      + 65536 * ((v mod 4294967296) div 65536 mod 256)
      + 16777216 * ((v mod 4294967296) div 16777216 mod 256)"
    by (simp add: le_bytes32_def uint_ToUint8)
  also have "\<dots> = (v mod 4294967296) mod 4294967296"
    by (rule le32_arith)
  finally show ?thesis by simp
qed

lemma uint_le_le_bytes16: "uint_le (le_bytes16 v) = v mod 2 ^ 16"
proof -
  have "uint_le (le_bytes16 v) =
      (v mod 65536) mod 256 + 256 * ((v mod 65536) div 256 mod 256)"
    by (simp add: le_bytes16_def uint_ToUint8)
  also have "\<dots> = (v mod 65536) mod 65536"
    by (rule le16_arith)
  finally show ?thesis by simp
qed

lemma length_le_bytes32 [simp]: "length (le_bytes32 v) = 4"
  by (simp add: le_bytes32_def)

lemma length_le_bytes16 [simp]: "length (le_bytes16 v) = 2"
  by (simp add: le_bytes16_def)

lemma length_char_codes [simp]: "length (char_codes s) = length s"
  by (simp add: char_codes_def)

lemma length_lit [simp]: "length (lit s) = length s"
  by (simp add: lit_def)

lemma replicate_44: "replicate 44 (0::u8) =
  [0,0,0,0, 0,0,0,0, 0,0,0,0, 0,0,0,0, 0,0,0,0, 0,0,0,0, 0,0,0,0, 0,0,0,0,
   0,0,0,0, 0,0,0,0, 0,0,0,0]"
  by (simp add: numeral_eq_Suc)

lemma writeString_loop_4:
  "length s = 4 \<Longrightarrow> offset + 4 \<le> length view \<Longrightarrow>
   writeString view offset s =
     Inr (view[offset := ToUint8 (charCodeAt s 0), offset + 1 := ToUint8 (charCodeAt s 1),
               offset + 2 := ToUint8 (charCodeAt s 2), offset + 3 := ToUint8 (charCodeAt s 3)])"
  unfolding writeString_def
  apply (subst writeString_loop.simps, simp add: setUint8_def)
  apply (subst writeString_loop.simps, simp add: setUint8_def)
  apply (subst writeString_loop.simps, simp add: setUint8_def)
  apply (subst writeString_loop.simps, simp add: setUint8_def)
  apply (subst writeString_loop.simps, simp add: setUint8_def)
  apply (simp add: numeral_eq_Suc)
  done

lemma writeString_4:
  "length s = 4 \<Longrightarrow> off + 4 \<le> length view \<Longrightarrow>
   writeString view off s =
     Inr (view[off := char_codes s ! 0, off + 1 := char_codes s ! 1,
               off + 2 := char_codes s ! 2, off + 3 := char_codes s ! 3])"
  by (simp add: writeString_loop_4 char_codes_def charCodeAt_def)

lemma setUint32_le:
  "off + 4 \<le> length view \<Longrightarrow>
   setUint32 view off v True =
     Inr (view[off := le_bytes32 v ! 0, off + 1 := le_bytes32 v ! 1,
               off + 2 := le_bytes32 v ! 2, off + 3 := le_bytes32 v ! 3])"
  by (simp add: setUint32_def Let_def le_bytes32_def)

lemma setUint16_le:
  "off + 2 \<le> length view \<Longrightarrow>
   setUint16 view off v True =
     Inr (view[off := le_bytes16 v ! 0, off + 1 := le_bytes16 v ! 1])"
  by (simp add: setUint16_def Let_def le_bytes16_def)

text \<open>The header is the concatenation of its thirteen fields, whatever the arguments.\<close>

lemma createWavHeader_bytes:
  "createWavHeader dataLength sampleRate = Inr
     (char_codes (lit ''RIFF'') @ le_bytes32 (36 + dataLength) @ char_codes (lit ''WAVE'') @
      char_codes (lit ''fmt '') @
      le_bytes32 16 @ le_bytes16 1 @ le_bytes16 1 @ le_bytes32 sampleRate @
      le_bytes32 (sampleRate * 2) @ le_bytes16 2 @ le_bytes16 16 @ char_codes (lit ''data'') @
      le_bytes32 dataLength)"
  unfolding createWavHeader_def replicate_44
  apply (simp add: writeString_4 setUint32_le setUint16_le)
  apply (simp add: le_bytes32_def le_bytes16_def char_codes_def lit_def)
  done

lemma createWavHeader_returns:
  "\<exists>header. createWavHeader dataLength sampleRate = Inr header \<and> length header = 44"
  by (simp add: createWavHeader_bytes)

text \<open>
  C2. For every \<open>dataLength\<close> and \<open>sampleRate\<close>, \<open>createWavHeader\<close> returns (it does not
  throw) an array of exactly 44 bytes.
\<close>

theorem createWavHeader_length_44:
  "\<exists>header. createWavHeader dataLength sampleRate = Inr header \<and> length header = 44"
  by (rule createWavHeader_returns)

text \<open>
  \<open>setUint32\<close> stores its argument modulo \<open>2 ^ 32\<close>: whatever the payload length \<open>N\<close>, the
  RIFF chunk size field reads \<open>(36 + N) mod 2 ^ 32\<close> and the data chunk length field
  \<open>N mod 2 ^ 32\<close>.
\<close>

lemma createWavHeader_size_fields_mod:
  "\<exists>header. createWavHeader (int N) sampleRate = Inr header \<and>
     uint_le (field 4 4 header) = (36 + int N) mod 2 ^ 32 \<and>
     uint_le (field 40 4 header) = int N mod 2 ^ 32"
  by (simp add: createWavHeader_bytes field_def uint_le_le_bytes32)

text \<open>
  C3 (as amended). For every payload length \<open>N\<close> with \<open>36 + N < 2 ^ 32\<close>, the RIFF chunk
  size field (bytes 4 to 7), read as a little-endian unsigned 32-bit integer, is \<open>36 + N\<close>,
  and the data chunk length field (bytes 40 to 43) is \<open>N\<close>.
\<close>

theorem createWavHeader_size_fields:
  assumes "36 + N < 2 ^ 32"
  shows "\<exists>header. createWavHeader (int N) sampleRate = Inr header \<and>
     uint_le (field 4 4 header) = 36 + int N \<and>
     uint_le (field 40 4 header) = int N"
  using assms by (simp add: createWavHeader_bytes field_def uint_le_le_bytes32)

theorem createWavHeader_size_fields_witness:
  "(36::nat) + 5 < 2 ^ 32 \<and>
   (\<exists>header. createWavHeader (int 5) 24000 = Inr header \<and>
     uint_le (field 4 4 header) = 41 \<and> uint_le (field 40 4 header) = 5)"
  using createWavHeader_size_fields [of 5 24000] by auto

text \<open>
  C3 as stated fails for a payload of \<open>2 ^ 32 - 36 = 4294967260\<close> bytes: the RIFF chunk
  size field of its header reads 0, not \<open>36 + N = 4294967296\<close>.
\<close>

theorem riff_size_field_counterexample:
  "map_sum id (\<lambda>header. uint_le (field 4 4 header)) (createWavHeader 4294967260 24000)
     \<noteq> Inr (36 + 4294967260)"
  by (simp add: createWavHeader_bytes field_def uint_le_le_bytes32)

text \<open>The four tags, byte by byte and read back.\<close>

lemma char_codes_tags:
  "char_codes (lit ''RIFF'') = [0x52, 0x49, 0x46, 0x46]"
  "char_codes (lit ''WAVE'') = [0x57, 0x41, 0x56, 0x45]"
  "char_codes (lit ''fmt '') = [0x66, 0x6D, 0x74, 0x20]"
  "char_codes (lit ''data'') = [0x64, 0x61, 0x74, 0x61]"
  by (simp_all add: char_codes_def ToUint8_def lit_def)

lemma ascii_tags:
  "ascii_of (char_codes (lit ''RIFF'')) = ''RIFF''"
  "ascii_of (char_codes (lit ''WAVE'')) = ''WAVE''"
  "ascii_of (char_codes (lit ''fmt '')) = ''fmt ''"
  "ascii_of (char_codes (lit ''data'')) = ''data''"
  by (simp_all add: char_codes_tags ascii_of_def char_of_def bit_0)

text \<open>
  C4. In every header that \<open>createWavHeader\<close> returns, bytes 0 to 3 are the ASCII characters
  RIFF, bytes 8 to 11 are WAVE, bytes 12 to 15 are "fmt " (with its trailing space) and
  bytes 36 to 39 are data.
\<close>

theorem createWavHeader_tags:
  "\<exists>header. createWavHeader dataLength sampleRate = Inr header \<and>
     ascii_of (field 0 4 header) = ''RIFF'' \<and>
     ascii_of (field 8 4 header) = ''WAVE'' \<and>
     ascii_of (field 12 4 header) = ''fmt '' \<and>
     ascii_of (field 36 4 header) = ''data''"
  by (simp add: createWavHeader_bytes field_def ascii_tags)

text \<open>
  C5. With the sample rate 24000 that \<open>playAudio\<close> passes, whatever the data length: the
  format chunk length (bytes 16 to 19) is 16, the sample format (20 to 21) is 1 (PCM), the
  channel count (22 to 23) is 1, the sample rate (24 to 27) is 24000, the byte rate
  (28 to 31) is 48000, the block align (32 to 33) is 2 and the bits per sample (34 to 35)
  are 16; the block align is channels times bytes per sample, and the byte rate is the
  sample rate times the block align.
\<close>

theorem createWavHeader_format_fields:
  "\<exists>header. createWavHeader dataLength 24000 = Inr header \<and>
     uint_le (field 16 4 header) = 16 \<and>
     uint_le (field 20 2 header) = 1 \<and>
     uint_le (field 22 2 header) = 1 \<and>
     uint_le (field 24 4 header) = 24000 \<and>
     uint_le (field 28 4 header) = 48000 \<and>
     uint_le (field 32 2 header) = 2 \<and>
     uint_le (field 34 2 header) = 16 \<and>
     uint_le (field 32 2 header) =
       uint_le (field 22 2 header) * (uint_le (field 34 2 header) div 8) \<and>
     uint_le (field 28 4 header) = uint_le (field 24 4 header) * uint_le (field 32 2 header)"
  by (simp add: createWavHeader_bytes field_def uint_le_le_bytes32 uint_le_le_bytes16)

section \<open>playAudio (geminiService.ts)\<close>

text \<open>
  The objects that \<^verbatim>\<open>playAudio\<close> builds: a \<^verbatim>\<open>Blob\<close> of one part with a MIME type, and the
  audio element created from the blob's object URL, on which \<^verbatim>\<open>play()\<close> has been called.
  An object URL is the blob it names.
\<close>

record blob =
  blob_parts :: "u8 list"
  blob_type :: string

record audio_element =
  src_blob :: blob
  play_called :: bool

text \<open>
  The browser is a parameter of \<^verbatim>\<open>playAudio\<close>: what \<^verbatim>\<open>window.atob\<close> makes of the argument
  (of any type: at run time \<^verbatim>\<open>playAudio\<close> can be given anything), the decoded binary
  string or the exception; and for each later step that the platform carries out, the
  exception it throws there, if any: allocating a \<^verbatim>\<open>Uint8Array\<close> of a length, \<^verbatim>\<open>new Blob\<close>,
  \<^verbatim>\<open>URL.createObjectURL\<close>, \<^verbatim>\<open>new Audio\<close>, and the statement
  \<^verbatim>\<open>audio.play().catch(...)\<close>. A \<^verbatim>\<open>play()\<close> promise that is rejected later is logged by
  that handler and changes nothing that \<^verbatim>\<open>playAudio\<close> returns.
  The allocations of 44 bytes inside \<^verbatim>\<open>createWavHeader\<close> are taken to succeed, as in
  \<open>createWavHeader\<close> above.
\<close>

datatype platform_step =
    NewUint8Array nat
  | NewBlob "u8 list" string
  | CreateObjectURL blob
  | NewAudio blob
  | AudioPlay blob

record 'a browser =
  atob :: "'a \<Rightarrow> error + js_string"
  throws :: "platform_step \<Rightarrow> error option"

definition new_Uint8Array :: "'a browser \<Rightarrow> nat \<Rightarrow> error + u8 list" where
  "new_Uint8Array window len =
     (case throws window (NewUint8Array len) of
        Some e \<Rightarrow> Inl e
      | None \<Rightarrow> Inr (replicate len 0))"

definition new_Blob :: "'a browser \<Rightarrow> u8 list \<Rightarrow> string \<Rightarrow> error + blob" where
  "new_Blob window part type =
     (case throws window (NewBlob part type) of
        Some e \<Rightarrow> Inl e
      | None \<Rightarrow> Inr \<lparr>blob_parts = part, blob_type = type\<rparr>)"

definition createObjectURL :: "'a browser \<Rightarrow> blob \<Rightarrow> error + blob" where
  "createObjectURL window b =
     (case throws window (CreateObjectURL b) of Some e \<Rightarrow> Inl e | None \<Rightarrow> Inr b)"

definition new_Audio :: "'a browser \<Rightarrow> blob \<Rightarrow> error + audio_element" where
  "new_Audio window url =
     (case throws window (NewAudio url) of
        Some e \<Rightarrow> Inl e
      | None \<Rightarrow> Inr \<lparr>src_blob = url, play_called = False\<rparr>)"

definition audio_play :: "'a browser \<Rightarrow> audio_element \<Rightarrow> error + audio_element" where
  "audio_play window audio =
     (case throws window (AudioPlay (src_blob audio)) of
        Some e \<Rightarrow> Inl e
      | None \<Rightarrow> Inr (audio\<lparr>play_called := True\<rparr>))"

text \<open>
  The loop \<^verbatim>\<open>for (let i = 0; i < len; i++) bytes[i] = binaryString.charCodeAt(i)\<close>. A store
  into a \<^verbatim>\<open>Uint8Array\<close> converts the number with \<^verbatim>\<open>ToUint8\<close>.
\<close>

function bytes_loop :: "u8 list \<Rightarrow> js_string \<Rightarrow> nat \<Rightarrow> nat \<Rightarrow> u8 list" where
  "bytes_loop bytes binaryString len i =
     (if i < len
      then bytes_loop (bytes[i := ToUint8 (charCodeAt binaryString i)]) binaryString len (i + 1)
      else bytes)"
  by pat_completeness auto
termination
  by (relation "measure (\<lambda>(bytes, binaryString, len, i). len - i)") auto

declare bytes_loop.simps [simp del]

text \<open>
  \<^verbatim>\<open>target.set(source, offset)\<close> of a typed array: \<^verbatim>\<open>RangeError\<close> when the source does not
  fit at the offset.
\<close>

definition typed_array_set :: "u8 list \<Rightarrow> u8 list \<Rightarrow> nat \<Rightarrow> error + u8 list" where
  "typed_array_set target source offset =
     (if offset + length source > length target then Inl RangeError
      else Inr (take offset target @ source @ drop (offset + length source) target))"

text \<open>The body of the \<^verbatim>\<open>try\<close> block, statement by statement.\<close>

definition playAudio_try :: "'a browser \<Rightarrow> 'a \<Rightarrow> error + audio_element" where
  "playAudio_try window base64 =
     bind_result (atob window base64) (\<lambda>binaryString.
     let len = length binaryString in
     bind_result (new_Uint8Array window len) (\<lambda>bytes.
     let bytes = bytes_loop bytes binaryString len 0 in
     bind_result (createWavHeader (int len) 24000) (\<lambda>wavHeader.
     bind_result (new_Uint8Array window (length wavHeader + len)) (\<lambda>wavBytes.
     bind_result (typed_array_set wavBytes wavHeader 0) (\<lambda>wavBytes.
     bind_result (typed_array_set wavBytes bytes (length wavHeader)) (\<lambda>wavBytes.
     bind_result (new_Blob window wavBytes ''audio/wav'') (\<lambda>blob.
     bind_result (createObjectURL window blob) (\<lambda>url.
     bind_result (new_Audio window url) (\<lambda>audio.
     bind_result (audio_play window audio) (\<lambda>audio.
     Inr audio))))))))))"

text \<open>
  \<^verbatim>\<open>playAudio\<close>: the \<^verbatim>\<open>try\<close> block and its \<^verbatim>\<open>catch\<close>, which logs and returns \<^verbatim>\<open>null\<close>
  (\<open>None\<close>). \<open>Inl\<close> would be an exception that reaches the caller.
\<close>

definition playAudio :: "'a browser \<Rightarrow> 'a \<Rightarrow> error + audio_element option" where
  "playAudio window base64 =
     (case playAudio_try window base64 of
        Inr audio \<Rightarrow> Inr (Some audio)
      | Inl e \<Rightarrow> Inr None)"

text \<open>
  For a decoded string, the buffer that is assembled, the platform steps that
  \<^verbatim>\<open>playAudio\<close> goes through in their order, and the first exception among them.
\<close>

definition wav_bytes :: "js_string \<Rightarrow> u8 list" where
  "wav_bytes binaryString =
     (case createWavHeader (int (length binaryString)) 24000 of
        Inl e \<Rightarrow> []
      | Inr wavHeader \<Rightarrow> wavHeader @ char_codes binaryString)"

definition playAudio_steps :: "js_string \<Rightarrow> platform_step list" where
  "playAudio_steps binaryString =
     (let b = \<lparr>blob_parts = wav_bytes binaryString, blob_type = ''audio/wav''\<rparr>
      in [NewUint8Array (length binaryString), NewUint8Array (44 + length binaryString),
          NewBlob (wav_bytes binaryString) ''audio/wav'', CreateObjectURL b, NewAudio b,
          AudioPlay b])"

fun first_exception :: "(platform_step \<Rightarrow> error option) \<Rightarrow> platform_step list \<Rightarrow> error option" where
  "first_exception thr [] = None"
| "first_exception thr (st # steps) =
     (case thr st of Some e \<Rightarrow> Some e | None \<Rightarrow> first_exception thr steps)"

section \<open>A decoder to run playAudio with\<close>

text \<open>
  The \<^verbatim>\<open>atob\<close> of the HTML standard (forgiving-base64 decode), to evaluate \<open>playAudio\<close> on
  concrete strings: ASCII whitespace is dropped, one or two closing \<^verbatim>\<open>=\<close> are removed when
  the length is a multiple of four, a length of 1 modulo 4 or a character outside the
  alphabet is an \<^verbatim>\<open>InvalidCharacterError\<close>, and the six-bit values are regrouped into bytes,
  the surplus bits of the last group dropped. The general theorems below hold for every
  decoder.
\<close>

definition ascii_whitespace :: "nat \<Rightarrow> bool" where
  "ascii_whitespace c = (c = 0x09 \<or> c = 0x0A \<or> c = 0x0C \<or> c = 0x0D \<or> c = 0x20)"

definition base64_alphabet :: js_string where
  "base64_alphabet =
     lit ''ABCDEFGHIJKLMNOPQRSTUVWXYZabcdefghijklmnopqrstuvwxyz0123456789+/''"

definition equals_sign :: nat where
  "equals_sign = 0x3D"

fun index_from :: "nat \<Rightarrow> 'a \<Rightarrow> 'a list \<Rightarrow> nat option" where
  "index_from i x [] = None"
| "index_from i x (y # ys) = (if x = y then Some i else index_from (i + 1) x ys)"

fun sextets :: "js_string \<Rightarrow> nat list option" where
  "sextets [] = Some []"
| "sextets (c # cs) =
     (case index_from 0 c base64_alphabet of
        None \<Rightarrow> None
      | Some v \<Rightarrow> map_option ((#) v) (sextets cs))"

fun decode_sextets :: "nat list \<Rightarrow> nat list" where
  "decode_sextets (a # b # c # d # rest) =
     (let n = ((a * 64 + b) * 64 + c) * 64 + d
      in n div 65536 # n div 256 mod 256 # n mod 256 # decode_sextets rest)"
| "decode_sextets [a, b, c] =
     (let n = ((a * 64 + b) * 64 + c) div 4 in [n div 256, n mod 256])"
| "decode_sextets [a, b] = [(a * 64 + b) div 16]"
| "decode_sextets _ = []"

definition strip_padding :: "js_string \<Rightarrow> js_string" where
  "strip_padding d =
     (if length d mod 4 = 0 \<and> d \<noteq> [] \<and> last d = equals_sign
      then (if butlast d \<noteq> [] \<and> last (butlast d) = equals_sign
            then butlast (butlast d) else butlast d)
      else d)"

definition window_atob :: "js_string \<Rightarrow> error + js_string" where
  "window_atob data =
     (let d = strip_padding (filter (\<lambda>c. \<not> ascii_whitespace c) data)
      in if length d mod 4 = 1 then Inl InvalidCharacterError
         else case sextets d of
                None \<Rightarrow> Inl InvalidCharacterError
              | Some vs \<Rightarrow> Inr (decode_sextets vs))"

section \<open>Properties of playAudio\<close>

text \<open>The copying loop stores the character codes of the whole string.\<close>

lemma bytes_loop_char_codes:
  "i \<le> length s \<Longrightarrow> length bytes = length s \<Longrightarrow>
   bytes_loop bytes s (length s) i = take i bytes @ char_codes (drop i s)"
proof (induction bytes s "length s" i rule: bytes_loop.induct)
  case (1 bytes s i)
  show ?case
  proof (cases "i < length s")
    case True
    have "bytes_loop bytes s (length s) i =
        bytes_loop (bytes[i := ToUint8 (charCodeAt s i)]) s (length s) (i + 1)"
      using True by (subst bytes_loop.simps) simp
    also have "\<dots> =
        take (i + 1) (bytes[i := ToUint8 (charCodeAt s i)]) @ char_codes (drop (i + 1) s)"
      using True 1 by simp
    also have "\<dots> = take i bytes @ char_codes (drop i s)"
      using True 1(3)
      by (simp add: take_Suc_conv_app_nth char_codes_def charCodeAt_def
          Cons_nth_drop_Suc [symmetric])
    finally show ?thesis .
  next
    case False
    with 1 show ?thesis
      by (subst bytes_loop.simps) (simp add: char_codes_def)
  qed
qed

lemma bytes_loop_all:
  "bytes_loop (replicate (length s) 0) s (length s) 0 = char_codes s"
  using bytes_loop_char_codes [of 0 s "replicate (length s) 0"] by simp

lemma typed_array_set_front:
  "length source \<le> length target \<Longrightarrow>
   typed_array_set target source 0 = Inr (source @ drop (length source) target)"
  by (simp add: typed_array_set_def)

lemma typed_array_set_back:
  "offset + length source = length target \<Longrightarrow>
   typed_array_set target source offset = Inr (take offset target @ source)"
  by (simp add: typed_array_set_def)

lemma wav_bytes_header:
  "createWavHeader (int (length s)) 24000 = Inr header \<Longrightarrow> wav_bytes s = header @ char_codes s"
  by (simp add: wav_bytes_def)

text \<open>
  Once the string is decoded, the \<^verbatim>\<open>try\<close> block ends with the first exception of its
  platform steps, or with the audio element over the assembled buffer: building the header
  and filling the buffer throw nothing themselves.
\<close>

lemma playAudio_try_decoded:
  assumes "atob window base64 = Inr s"
  shows "playAudio_try window base64 =
     (case first_exception (throws window) (playAudio_steps s) of
        Some e \<Rightarrow> Inl e
      | None \<Rightarrow>
          Inr \<lparr>src_blob = \<lparr>blob_parts = wav_bytes s, blob_type = ''audio/wav''\<rparr>,
               play_called = True\<rparr>)"
proof -
  obtain header where h: "createWavHeader (int (length s)) 24000 = Inr header"
    and l: "length header = 44"
    using createWavHeader_returns by blast
  have w: "wav_bytes s = header @ char_codes s"
    using h by (rule wav_bytes_header)
  show ?thesis
    unfolding playAudio_try_def playAudio_steps_def w
    using assms h l
    by (simp add: Let_def new_Uint8Array_def new_Blob_def createObjectURL_def new_Audio_def
        audio_play_def bytes_loop_all typed_array_set_front typed_array_set_back
        split: option.splits)
qed

lemma first_exception_None:
  "first_exception thr steps = None \<longleftrightarrow> \<not> list_ex (\<lambda>st. thr st \<noteq> None) steps"
  by (induction steps) (auto split: option.splits)

text \<open>
  C6. For every string that the decoder turns into \<open>N\<close> code units, the buffer of
  \<open>playAudio\<close> is the 44-byte header of \<open>createWavHeader N 24000\<close> followed by the \<open>N\<close>
  decoded bytes, in that order, \<open>44 + N\<close> bytes in all: when no platform step throws,
  \<open>playAudio\<close> returns the audio element over the blob of exactly this buffer, and
  whenever it returns an audio element at all, this buffer is what the element was handed.
\<close>

theorem playAudio_assembles_wav:
  assumes "atob window base64 = Inr binaryString"
  shows "\<exists>header. createWavHeader (int (length binaryString)) 24000 = Inr header \<and>
     length header = 44 \<and>
     length (header @ char_codes binaryString) = 44 + length binaryString \<and>
     (\<not> list_ex (\<lambda>st. throws window st \<noteq> None) (playAudio_steps binaryString) \<longrightarrow>
        playAudio window base64 =
          Inr (Some \<lparr>src_blob = \<lparr>blob_parts = header @ char_codes binaryString,
                                   blob_type = ''audio/wav''\<rparr>,
                       play_called = True\<rparr>)) \<and>
     (\<forall>audio. playAudio window base64 = Inr (Some audio) \<longrightarrow>
        blob_parts (src_blob audio) = header @ char_codes binaryString)"
proof -
  obtain header where h: "createWavHeader (int (length binaryString)) 24000 = Inr header"
    and l: "length header = 44"
    using createWavHeader_returns by blast
  have w: "wav_bytes binaryString = header @ char_codes binaryString"
    using h by (rule wav_bytes_header)
  have len: "length (header @ char_codes binaryString) = 44 + length binaryString"
    using l by (simp add: char_codes_def)
  have quiet: "playAudio window base64 =
      Inr (Some \<lparr>src_blob = \<lparr>blob_parts = header @ char_codes binaryString,
                               blob_type = ''audio/wav''\<rparr>,
                   play_called = True\<rparr>)"
    if "\<not> list_ex (\<lambda>st. throws window st \<noteq> None) (playAudio_steps binaryString)"
  proof -
    have "first_exception (throws window) (playAudio_steps binaryString) = None"
      using that by (simp add: first_exception_None)
    then show ?thesis
      unfolding playAudio_def playAudio_try_decoded [OF assms] by (simp add: w)
  qed
  have handed: "blob_parts (src_blob audio) = header @ char_codes binaryString"
    if "playAudio window base64 = Inr (Some audio)" for audio
    using that unfolding playAudio_def playAudio_try_decoded [OF assms]
    by (auto simp: w split: option.splits)
  show ?thesis
    by (rule exI [of _ header]) (intro conjI impI allI h l len quiet handed)
qed

text \<open>A browser with the decoder above in which no platform step throws.\<close>

definition quiet_browser :: "js_string browser" where
  "quiet_browser = \<lparr>atob = window_atob, throws = (\<lambda>st. None)\<rparr>"

lemma window_atob_Hi: "window_atob (lit ''SGk='') = Inr (lit ''Hi'')"
  by (simp add: window_atob_def strip_padding_def ascii_whitespace_def base64_alphabet_def
      equals_sign_def lit_def)

theorem playAudio_assembles_wav_witness:
  "atob quiet_browser (lit ''SGk='') = Inr (lit ''Hi'') \<and>
   \<not> list_ex (\<lambda>st. throws quiet_browser st \<noteq> None) (playAudio_steps (lit ''Hi'')) \<and>
   playAudio quiet_browser (lit ''SGk='') =
     Inr (Some \<lparr>src_blob = \<lparr>blob_parts =
        [82, 73, 70, 70, 38, 0, 0, 0, 87, 65, 86, 69, 102, 109, 116, 32, 16, 0, 0, 0, 1, 0, 1, 0,
         192, 93, 0, 0, 128, 187, 0, 0, 2, 0, 16, 0, 100, 97, 116, 97, 2, 0, 0, 0, 72, 105],
        blob_type = ''audio/wav''\<rparr>, play_called = True\<rparr>)"
proof -
  have a: "atob quiet_browser (lit ''SGk='') = Inr (lit ''Hi'')"
    by (simp add: quiet_browser_def window_atob_Hi)
  have q: "\<not> list_ex (\<lambda>st. throws quiet_browser st \<noteq> None) (playAudio_steps (lit ''Hi''))"
    by (simp add: quiet_browser_def list_ex_iff)
  have h: "createWavHeader 2 24000 = Inr
        [82, 73, 70, 70, 38, 0, 0, 0, 87, 65, 86, 69, 102, 109, 116, 32, 16, 0, 0, 0, 1, 0, 1, 0,
         192, 93, 0, 0, 128, 187, 0, 0, 2, 0, 16, 0, 100, 97, 116, 97, 2, 0, 0, 0]"
    by (simp add: createWavHeader_bytes le_bytes32_def le_bytes16_def char_codes_def
        ToUint8_def lit_def)
  from playAudio_assembles_wav [OF a] a q show ?thesis
    by (auto simp: h char_codes_def ToUint8_def lit_def)
qed

text \<open>
  C9. Whatever the argument and whatever the browser does, \<open>playAudio\<close> returns to its
  caller (no exception reaches it). It returns \<^verbatim>\<open>null\<close> when decoding throws, and when a
  platform step of the \<^verbatim>\<open>try\<close> block throws after decoding (allocating either buffer,
  creating the blob, its URL or the audio element, starting it); otherwise it returns the
  audio element over the assembled buffer.
\<close>

theorem playAudio_never_throws:
  "(\<exists>e. atob window base64 = Inl e) \<and> playAudio window base64 = Inr None \<or>
   (\<exists>s. atob window base64 = Inr s \<and>
      list_ex (\<lambda>st. throws window st \<noteq> None) (playAudio_steps s) \<and>
      playAudio window base64 = Inr None) \<or>
   (\<exists>s. atob window base64 = Inr s \<and>
      \<not> list_ex (\<lambda>st. throws window st \<noteq> None) (playAudio_steps s) \<and>
      playAudio window base64 =
        Inr (Some \<lparr>src_blob = \<lparr>blob_parts = wav_bytes s, blob_type = ''audio/wav''\<rparr>,
                    play_called = True\<rparr>))"
proof (cases "atob window base64")
  case (Inl e)
  then show ?thesis
    by (simp add: playAudio_def playAudio_try_def)
next
  case (Inr s)
  show ?thesis
  proof (cases "first_exception (throws window) (playAudio_steps s)")
    case None
    then have "\<not> list_ex (\<lambda>st. throws window st \<noteq> None) (playAudio_steps s)"
      by (simp add: first_exception_None)
    moreover have "playAudio window base64 =
        Inr (Some \<lparr>src_blob = \<lparr>blob_parts = wav_bytes s, blob_type = ''audio/wav''\<rparr>,
                    play_called = True\<rparr>)"
      unfolding playAudio_def playAudio_try_decoded [OF Inr] None by simp
    ultimately show ?thesis
      using Inr by blast
  next
    case (Some e)
    then have "list_ex (\<lambda>st. throws window st \<noteq> None) (playAudio_steps s)"
      using first_exception_None [of "throws window" "playAudio_steps s"] by simp
    moreover have "playAudio window base64 = Inr None"
      unfolding playAudio_def playAudio_try_decoded [OF Inr] Some by simp
    ultimately show ?thesis
      using Inr by blast
  qed
qed

text \<open>
  Three runs: an argument that is not base64, a browser that cannot allocate the second
  buffer, and a browser whose audio element cannot be created.
\<close>

lemma playAudio_invalid_base64: "playAudio quiet_browser (lit ''not base64!'') = Inr None"
  by (simp add: playAudio_def playAudio_try_def quiet_browser_def window_atob_def
      strip_padding_def ascii_whitespace_def base64_alphabet_def equals_sign_def lit_def)

lemma playAudio_allocation_fails:
  "playAudio \<lparr>atob = window_atob,
              throws = (\<lambda>st. if st = NewUint8Array 46 then Some RangeError else None)\<rparr>
     (lit ''SGk='') = Inr None"
  unfolding playAudio_def
  by (subst playAudio_try_decoded [where s = "lit ''Hi''"])
     (simp_all add: window_atob_Hi playAudio_steps_def Let_def)

lemma playAudio_no_audio_element:
  "playAudio \<lparr>atob = window_atob,
              throws = (\<lambda>st. case st of NewAudio b \<Rightarrow> Some TypeError | _ \<Rightarrow> None)\<rparr>
     (lit ''SGk='') = Inr None"
  unfolding playAudio_def
  by (subst playAudio_try_decoded [where s = "lit ''Hi''"])
     (simp_all add: window_atob_Hi playAudio_steps_def Let_def)

section \<open>A reader of RIFF/WAVE files\<close>

text \<open>
  The reference reader that the round trip is stated against, after the RIFF container
  format: a file is the tag RIFF, a 32-bit little-endian size, and a body of that size;
  the body is the tag WAVE followed by chunks; a chunk is a four-byte tag, a 32-bit
  little-endian size, that many bytes, and a padding byte when the size is odd (chunks
  start at even offsets). The reader is strict: it refuses a file whose body is cut short
  and a chunk whose bytes or padding byte are missing, also the last one. Bytes after the
  RIFF body are not looked at. It returns the fields of the format chunk and the bytes of
  the data chunk.
\<close>

record wav =
  wav_audioFormat :: int
  wav_numChannels :: int
  wav_sampleRate :: int
  wav_byteRate :: int
  wav_blockAlign :: int
  wav_bitsPerSample :: int
  wav_data :: "u8 list"

function parse_chunks :: "u8 list \<Rightarrow> (string \<times> u8 list) list option" where
  "parse_chunks bs =
     (if bs = [] then Some []
      else if length bs < 8 then None
      else if length (drop 8 bs) <
              nat (uint_le (field 4 4 bs)) + nat (uint_le (field 4 4 bs)) mod 2 then None
      else map_option
             ((#) (ascii_of (field 0 4 bs), field 8 (nat (uint_le (field 4 4 bs))) bs))
             (parse_chunks
                (drop (8 + nat (uint_le (field 4 4 bs)) + nat (uint_le (field 4 4 bs)) mod 2) bs)))"
  by pat_completeness auto
termination
  by (relation "measure length") auto

declare parse_chunks.simps [simp del]

definition parse_wav :: "u8 list \<Rightarrow> wav option" where
  "parse_wav buf =
     (if length buf < 12 then None
      else if ascii_of (field 0 4 buf) \<noteq> ''RIFF'' then None
      else if length (drop 8 buf) < nat (uint_le (field 4 4 buf)) then None
      else let body = field 8 (nat (uint_le (field 4 4 buf))) buf
           in if ascii_of (field 0 4 body) \<noteq> ''WAVE'' then None
              else case parse_chunks (drop 4 body) of
                     None \<Rightarrow> None
                   | Some chunks \<Rightarrow>
                       (case map_of chunks ''fmt '' of
                          None \<Rightarrow> None
                        | Some fmt \<Rightarrow>
                            (case map_of chunks ''data'' of
                               None \<Rightarrow> None
                             | Some samples \<Rightarrow>
                                 if length fmt < 16 then None
                                 else Some \<lparr>wav_audioFormat = uint_le (field 0 2 fmt),
                                            wav_numChannels = uint_le (field 2 2 fmt),
                                            wav_sampleRate = uint_le (field 4 4 fmt),
                                            wav_byteRate = uint_le (field 8 4 fmt),
                                            wav_blockAlign = uint_le (field 12 2 fmt),
                                            wav_bitsPerSample = uint_le (field 14 2 fmt),
                                            wav_data = samples\<rparr>)))"

section \<open>The round trip through the reader\<close>

lemma le_bytes32_not_Nil [simp]: "le_bytes32 v \<noteq> []"
  by (simp add: le_bytes32_def)

lemma parse_chunks_Nil: "parse_chunks [] = Some []"
  by (subst parse_chunks.simps) simp

lemma parse_chunks_last:
  assumes "length tag = 4" and "int (length body) < 2 ^ 32" and "even (length body)"
  shows "parse_chunks (tag @ le_bytes32 (int (length body)) @ body) =
     Some [(ascii_of tag, body)]"
  using assms
  by (subst parse_chunks.simps)
     (simp add: field_def uint_le_le_bytes32 parse_chunks_Nil)

lemma parse_chunks_even:
  assumes "length tag = 4" and "int (length body) < 2 ^ 32" and "even (length body)"
  shows "parse_chunks (tag @ le_bytes32 (int (length body)) @ body @ rest) =
     map_option ((#) (ascii_of tag, body)) (parse_chunks rest)"
  using assms
  by (subst parse_chunks.simps)
     (simp add: field_def uint_le_le_bytes32)

text \<open>An odd chunk at the end of the bytes, with no padding byte after it, is refused.\<close>

lemma parse_chunks_unpadded:
  assumes "length tag = 4" and "int (length body) < 2 ^ 32" and "odd (length body)"
  shows "parse_chunks (tag @ le_bytes32 (int (length body)) @ body) = None"
proof -
  have "length body mod 2 = 1"
    using assms(3) by presburger
  with assms(1,2) show ?thesis
    by (subst parse_chunks.simps)
       (simp add: field_def uint_le_le_bytes32)
qed

lemma field_0_append: "length xs = n \<Longrightarrow> field 0 n (xs @ ys) = xs"
  by (simp add: field_def)

text \<open>
  A file laid out as RIFF, size, WAVE, a format chunk and a data chunk is read as those two
  chunks; bytes after the RIFF body are not looked at.
\<close>

lemma parse_wav_layout:
  assumes riff: "length chunks + 4 < 2 ^ 32"
    and chunks: "parse_chunks chunks = Some [(''fmt '', fmt), (''data'', samples)]"
    and fmt: "length fmt = 16"
  shows "parse_wav (char_codes (lit ''RIFF'') @ le_bytes32 (int (length chunks + 4)) @
                    char_codes (lit ''WAVE'') @ chunks @ trailing) =
     Some \<lparr>wav_audioFormat = uint_le (field 0 2 fmt),
            wav_numChannels = uint_le (field 2 2 fmt),
            wav_sampleRate = uint_le (field 4 4 fmt),
            wav_byteRate = uint_le (field 8 4 fmt),
            wav_blockAlign = uint_le (field 12 2 fmt),
            wav_bitsPerSample = uint_le (field 14 2 fmt),
            wav_data = samples\<rparr>"
proof -
  let ?buf = "char_codes (lit ''RIFF'') @ le_bytes32 (int (length chunks + 4)) @
              char_codes (lit ''WAVE'') @ chunks @ trailing"
  have size: "nat (uint_le (field 4 4 ?buf)) = length chunks + 4"
    using riff by (simp add: field_def uint_le_le_bytes32)
  have tag: "ascii_of (field 0 4 ?buf) = ''RIFF''"
    by (simp add: field_def ascii_tags)
  have body: "field 8 (length chunks + 4) ?buf = char_codes (lit ''WAVE'') @ chunks"
    by (simp add: field_def)
  show ?thesis
    unfolding parse_wav_def size tag body
    by (simp add: field_0_append ascii_tags chunks fmt)
qed

lemma parse_wav_refused:
  assumes riff: "length chunks + 4 < 2 ^ 32"
    and chunks: "parse_chunks chunks = None"
  shows "parse_wav (char_codes (lit ''RIFF'') @ le_bytes32 (int (length chunks + 4)) @
                    char_codes (lit ''WAVE'') @ chunks @ trailing) = None"
proof -
  let ?buf = "char_codes (lit ''RIFF'') @ le_bytes32 (int (length chunks + 4)) @
              char_codes (lit ''WAVE'') @ chunks @ trailing"
  have size: "nat (uint_le (field 4 4 ?buf)) = length chunks + 4"
    using riff by (simp add: field_def uint_le_le_bytes32)
  have body: "field 8 (length chunks + 4) ?buf = char_codes (lit ''WAVE'') @ chunks"
    by (simp add: field_def)
  show ?thesis
    unfolding parse_wav_def size body
    by (simp add: field_0_append ascii_tags chunks)
qed

text \<open>
  C1 (as amended). For every byte payload of even length \<open>N\<close> with \<open>36 + N < 2 ^ 32\<close>,
  the buffer made of \<open>createWavHeader N 24000\<close> followed by the payload is read back by
  the RIFF/WAVE reader as PCM (format 1), 1 channel, sample rate 24000, 16 bits per sample,
  with a data chunk that is exactly the payload; the payload is bytes 44 to
  \<open>44 + N - 1\<close> of the buffer.
\<close>

theorem wav_roundtrip:
  assumes "36 + length payload < 2 ^ 32" and "even (length payload)"
  shows "\<exists>header. createWavHeader (int (length payload)) 24000 = Inr header \<and>
     parse_wav (header @ payload) =
       Some \<lparr>wav_audioFormat = 1, wav_numChannels = 1, wav_sampleRate = 24000,
             wav_byteRate = 48000, wav_blockAlign = 2, wav_bitsPerSample = 16,
             wav_data = payload\<rparr> \<and>
     field 44 (length payload) (header @ payload) = payload"
proof -
  let ?fmt = "le_bytes16 1 @ le_bytes16 1 @ le_bytes32 24000 @ le_bytes32 (24000 * 2) @
              le_bytes16 2 @ le_bytes16 16"
  let ?chunks = "char_codes (lit ''fmt '') @ le_bytes32 (int (length ?fmt)) @ ?fmt @
                 char_codes (lit ''data'') @ le_bytes32 (int (length payload)) @ payload"
  let ?header = "char_codes (lit ''RIFF'') @ le_bytes32 (36 + int (length payload)) @
      char_codes (lit ''WAVE'') @ char_codes (lit ''fmt '') @ le_bytes32 16 @ le_bytes16 1 @
      le_bytes16 1 @ le_bytes32 24000 @ le_bytes32 (24000 * 2) @ le_bytes16 2 @
      le_bytes16 16 @ char_codes (lit ''data'') @ le_bytes32 (int (length payload))"
  have header: "createWavHeader (int (length payload)) 24000 = Inr ?header"
    by (rule createWavHeader_bytes)
  have chunks: "parse_chunks ?chunks =
      Some [(''fmt '', ?fmt), (''data'', payload)]"
    using assms
    by (subst parse_chunks_even) (simp_all add: parse_chunks_last ascii_tags)
  have len: "length ?chunks + 4 = 36 + length payload"
    by simp
  have shape: "?header @ payload =
      char_codes (lit ''RIFF'') @ le_bytes32 (int (length ?chunks + 4)) @
      char_codes (lit ''WAVE'') @ ?chunks @ []"
    unfolding len by simp
  have "parse_wav (?header @ payload) =
      Some \<lparr>wav_audioFormat = uint_le (field 0 2 ?fmt),
            wav_numChannels = uint_le (field 2 2 ?fmt),
            wav_sampleRate = uint_le (field 4 4 ?fmt),
            wav_byteRate = uint_le (field 8 4 ?fmt),
            wav_blockAlign = uint_le (field 12 2 ?fmt),
            wav_bitsPerSample = uint_le (field 14 2 ?fmt),
            wav_data = payload\<rparr>"
    unfolding shape
    using assms by (intro parse_wav_layout chunks) simp_all
  then have parsed: "parse_wav (?header @ payload) =
      Some \<lparr>wav_audioFormat = 1, wav_numChannels = 1, wav_sampleRate = 24000,
            wav_byteRate = 48000, wav_blockAlign = 2, wav_bitsPerSample = 16,
            wav_data = payload\<rparr>"
    by (simp add: field_def uint_le_le_bytes32 uint_le_le_bytes16)
  have bytes: "field 44 (length payload) (?header @ payload) = payload"
    by (simp add: field_def)
  show ?thesis
    by (rule exI [of _ ?header]) (intro conjI header parsed bytes)
qed

theorem wav_roundtrip_witness:
  "36 + length [1, 2, 3, 4 :: u8] < 2 ^ 32 \<and> even (length [1, 2, 3, 4 :: u8]) \<and>
   (\<exists>header. createWavHeader 4 24000 = Inr header \<and>
     parse_wav (header @ [1, 2, 3, 4]) =
       Some \<lparr>wav_audioFormat = 1, wav_numChannels = 1, wav_sampleRate = 24000,
             wav_byteRate = 48000, wav_blockAlign = 2, wav_bitsPerSample = 16,
             wav_data = [1, 2, 3, 4]\<rparr>)"
  using wav_roundtrip [of "[1, 2, 3, 4]"] by auto

text \<open>
  A payload of odd length is not read back: \<open>createWavHeader\<close> announces a data chunk of
  odd size and \<open>playAudio\<close> appends no padding byte, so the strict reader refuses the
  file.
\<close>

lemma wav_odd_refused:
  assumes "36 + length payload < 2 ^ 32" and "odd (length payload)"
  shows "\<exists>header. createWavHeader (int (length payload)) 24000 = Inr header \<and>
     parse_wav (header @ payload) = None"
proof -
  let ?fmt = "le_bytes16 1 @ le_bytes16 1 @ le_bytes32 24000 @ le_bytes32 (24000 * 2) @
              le_bytes16 2 @ le_bytes16 16"
  let ?chunks = "char_codes (lit ''fmt '') @ le_bytes32 (int (length ?fmt)) @ ?fmt @
                 char_codes (lit ''data'') @ le_bytes32 (int (length payload)) @ payload"
  let ?header = "char_codes (lit ''RIFF'') @ le_bytes32 (36 + int (length payload)) @
      char_codes (lit ''WAVE'') @ char_codes (lit ''fmt '') @ le_bytes32 16 @ le_bytes16 1 @
      le_bytes16 1 @ le_bytes32 24000 @ le_bytes32 (24000 * 2) @ le_bytes16 2 @
      le_bytes16 16 @ char_codes (lit ''data'') @ le_bytes32 (int (length payload))"
  have header: "createWavHeader (int (length payload)) 24000 = Inr ?header"
    by (rule createWavHeader_bytes)
  have chunks: "parse_chunks ?chunks = None"
    using assms
    by (subst parse_chunks_even) (simp_all add: parse_chunks_unpadded)
  have len: "length ?chunks + 4 = 36 + length payload"
    by simp
  have shape: "?header @ payload =
      char_codes (lit ''RIFF'') @ le_bytes32 (int (length ?chunks + 4)) @
      char_codes (lit ''WAVE'') @ ?chunks @ []"
    unfolding len by simp
  have "parse_wav (?header @ payload) = None"
    unfolding shape
    using assms by (intro parse_wav_refused chunks) simp_all
  with header show ?thesis
    by blast
qed

text \<open>
  A payload of \<open>2 ^ 32\<close> bytes is not read back either: the data length field of its
  header wraps to 0, and the reader finds an empty data chunk.
\<close>

lemma le_bytes32_wrap: "le_bytes32 (4294967296 + v) = le_bytes32 v"
  by (simp add: le_bytes32_def)

lemma wav_truncated:
  assumes "length payload = 4294967296"
  shows "\<exists>header. createWavHeader 4294967296 24000 = Inr header \<and>
     map_option wav_data (parse_wav (header @ payload)) = Some []"
proof -
  let ?fmt = "le_bytes16 1 @ le_bytes16 1 @ le_bytes32 24000 @ le_bytes32 (24000 * 2) @
              le_bytes16 2 @ le_bytes16 16"
  let ?chunks = "char_codes (lit ''fmt '') @ le_bytes32 (int (length ?fmt)) @ ?fmt @
                 char_codes (lit ''data'') @ le_bytes32 (int (length ([] :: u8 list))) @ []"
  let ?header = "char_codes (lit ''RIFF'') @ le_bytes32 (36 + 4294967296) @
      char_codes (lit ''WAVE'') @ char_codes (lit ''fmt '') @ le_bytes32 16 @ le_bytes16 1 @
      le_bytes16 1 @ le_bytes32 24000 @ le_bytes32 (24000 * 2) @ le_bytes16 2 @
      le_bytes16 16 @ char_codes (lit ''data'') @ le_bytes32 4294967296"
  have header: "createWavHeader 4294967296 24000 = Inr ?header"
    by (rule createWavHeader_bytes)
  have chunks: "parse_chunks ?chunks =
      Some [(''fmt '', ?fmt), (''data'', [])]"
    using parse_chunks_last [of "char_codes (lit ''data'')" "[]"]
    by (subst parse_chunks_even) (simp_all add: ascii_tags)
  have w1: "le_bytes32 (36 + 4294967296) = le_bytes32 (int (length ?chunks + 4))"
    using le_bytes32_wrap [of 36] by simp
  have w2: "le_bytes32 4294967296 = le_bytes32 (int (length ([] :: u8 list)))"
    using le_bytes32_wrap [of 0] by simp
  have shape: "?header @ payload =
      char_codes (lit ''RIFF'') @ le_bytes32 (int (length ?chunks + 4)) @
      char_codes (lit ''WAVE'') @ ?chunks @ payload"
    unfolding w1 w2 by simp
  have "map_option wav_data (parse_wav (?header @ payload)) = Some []"
    unfolding shape
    by (subst parse_wav_layout [OF _ chunks]) simp_all
  with header show ?thesis
    by blast
qed

text \<open>
  C1 as stated fails for the three-byte payload 1, 2, 3, which the reader refuses, and for
  a payload of \<open>2 ^ 32\<close> zero bytes, of which the reader returns none.
\<close>

theorem wav_roundtrip_counterexample:
  "map_sum id (\<lambda>header. map_option wav_data (parse_wav (header @ [1, 2, 3])))
     (createWavHeader 3 24000)
   \<noteq> Inr (Some [1, 2, 3]) \<and>
   map_sum id (\<lambda>header. map_option wav_data (parse_wav (header @ replicate 4294967296 0)))
     (createWavHeader 4294967296 24000)
   \<noteq> Inr (Some (replicate 4294967296 0))"
proof -
  have "36 + length [1, 2, 3 :: u8] < 2 ^ 32" and "odd (length [1, 2, 3 :: u8])"
    by simp_all
  from wav_odd_refused [OF this]
  obtain header3 where h3: "createWavHeader 3 24000 = Inr header3"
    and p3: "parse_wav (header3 @ [1, 2, 3]) = None"
    by auto
  have odd: "map_sum id (\<lambda>header. map_option wav_data (parse_wav (header @ [1, 2, 3])))
     (createWavHeader 3 24000) \<noteq> Inr (Some [1, 2, 3])"
    unfolding h3 by (simp add: p3)
  have "length (replicate 4294967296 (0::u8)) = 4294967296"
    by (rule length_replicate)
  from wav_truncated [OF this]
  obtain header where
    h: "createWavHeader 4294967296 24000 = Inr header"
    and p: "map_option wav_data (parse_wav (header @ replicate 4294967296 0)) = Some []"
    by blast
  have "[] \<noteq> replicate 4294967296 (0::u8)"
    by (simp only: empty_replicate)
  then have big:
    "map_sum id (\<lambda>header. map_option wav_data (parse_wav (header @ replicate 4294967296 0)))
       (createWavHeader 4294967296 24000) \<noteq> Inr (Some (replicate 4294967296 0))"
    unfolding h by (simp only: map_sum.simps p sum.inject option.inject not_False_eq_True)
  from odd big show ?thesis
    by (rule conjI)
qed

section \<open>generateDeepfakeAudio (geminiService.ts)\<close>

text \<open>
  The reply of the speech model, as far as the code looks into it: the chain
  \<^verbatim>\<open>response.candidates?.[0]?.content?.parts?.[0]?.inlineData?.data\<close>, every link of which
  may be missing, and \<^verbatim>\<open>response.text\<close>.
\<close>

record inline_data =
  inline_data :: "js_string option"

record part =
  part_inlineData :: "inline_data option"

record content =
  content_parts :: "part list option"

record candidate =
  candidate_content :: "content option"

record response =
  response_candidates :: "candidate list option"
  response_text :: js_string

text \<open>
  A request names the model, carries the contents and a configuration: speech (the
  response modality and the prebuilt voice) or JSON (the required properties of the
  response schema).
\<close>

datatype request_config =
    SpeechConfig string string
  | JsonConfig "string list"

record request =
  request_model :: string
  request_contents :: js_string
  request_config :: request_config

text \<open>
  The external service is a parameter: the API key of the environment, if any, and what
  \<^verbatim>\<open>ai.models.generateContent\<close> answers to a request made with a key (a response, or the
  exception of a failed call).
\<close>

record gemini =
  GEMINI_API_KEY :: "js_string option"
  generateContent :: "js_string \<Rightarrow> request \<Rightarrow> error + response"

text \<open>
  \<^verbatim>\<open>getAI\<close> throws when the key is unset or empty; otherwise it returns the client, here
  its \<^verbatim>\<open>generateContent\<close>.
\<close>

definition getAI :: "gemini \<Rightarrow> error + (request \<Rightarrow> error + response)" where
  "getAI env =
     (case GEMINI_API_KEY env of
        None \<Rightarrow> Inl (Error ''GEMINI_API_KEY is not set'')
      | Some apiKey \<Rightarrow>
          if apiKey = [] then Inl (Error ''GEMINI_API_KEY is not set'')
          else Inr (generateContent env apiKey))"

text \<open>
  \<^verbatim>\<open>text.trim()\<close> removes white space and line terminators from both ends: tab, line
  feed, vertical tab, form feed, carriage return, space, no-break space, the byte order
  mark, the line and paragraph separators, and the other space separators of Unicode.
\<close>

definition js_whitespace :: "nat \<Rightarrow> bool" where
  "js_whitespace c =
     (c = 0x09 \<or> c = 0x0A \<or> c = 0x0B \<or> c = 0x0C \<or> c = 0x0D \<or> c = 0x20 \<or>
      c = 0xA0 \<or> c = 0x1680 \<or> (0x2000 \<le> c \<and> c \<le> 0x200A) \<or> c = 0x2028 \<or>
      c = 0x2029 \<or> c = 0x202F \<or> c = 0x205F \<or> c = 0x3000 \<or> c = 0xFEFF)"

definition trim :: "js_string \<Rightarrow> js_string" where
  "trim s = rev (dropWhile js_whitespace (rev (dropWhile js_whitespace s)))"

text \<open>
  \<^verbatim>\<open>xs?.[0]\<close> on an array: \<^verbatim>\<open>undefined\<close> when the array is empty.
\<close>

definition first_element :: "'a list \<Rightarrow> 'a option" where
  "first_element xs = (case xs of [] \<Rightarrow> None | x # _ \<Rightarrow> Some x)"

definition base64Audio :: "response \<Rightarrow> js_string option" where
  "base64Audio response =
     Option.bind (response_candidates response) (\<lambda>candidates.
     Option.bind (first_element candidates) (\<lambda>candidate.
     Option.bind (candidate_content candidate) (\<lambda>content.
     Option.bind (content_parts content) (\<lambda>parts.
     Option.bind (first_element parts) (\<lambda>part.
     Option.bind (part_inlineData part) (\<lambda>inlineData.
     inline_data inlineData))))))"

definition tts_request :: "js_string \<Rightarrow> request" where
  "tts_request text =
     \<lparr>request_model = ''gemini-2.5-flash-preview-tts'', request_contents = text,
      request_config = SpeechConfig ''AUDIO'' ''Charon''\<rparr>"

text \<open>
  \<^verbatim>\<open>generateDeepfakeAudio\<close> returns the list of the API calls it made and its outcome: the
  base64 string, or the exception it throws. \<^verbatim>\<open>getAI\<close> is called before the \<^verbatim>\<open>try\<close>
  block; the \<^verbatim>\<open>catch\<close> logs and throws the same exception again. \<^verbatim>\<open>!text\<close> holds of
  the empty string and \<^verbatim>\<open>!base64Audio\<close> of a missing or empty one.
\<close>

definition generateDeepfakeAudio ::
    "gemini \<Rightarrow> js_string \<Rightarrow> request list \<times> (error + js_string)" where
  "generateDeepfakeAudio env text =
     (case getAI env of
        Inl e \<Rightarrow> ([], Inl e)
      | Inr ai \<Rightarrow>
          if text = [] \<or> length (trim text) = 0
          then ([], Inl (Error ''Text for audio generation cannot be empty''))
          else (case ai (tts_request text) of
                  Inl e \<Rightarrow> ([tts_request text], Inl e)
                | Inr response \<Rightarrow>
                    (case base64Audio response of
                       None \<Rightarrow>
                         ([tts_request text],
                          Inl (Error ''No audio data received from Gemini API''))
                     | Some audio \<Rightarrow>
                         if audio = []
                         then ([tts_request text],
                               Inl (Error ''No audio data received from Gemini API''))
                         else ([tts_request text], Inr audio))))"

lemma trim_empty_iff: "trim s = [] \<longleftrightarrow> list_all js_whitespace s"
proof -
  have "dropWhile js_whitespace (rev (dropWhile js_whitespace s)) = [] \<longleftrightarrow>
      dropWhile js_whitespace s = []"
  proof (cases "dropWhile js_whitespace s")
    case Nil
    show ?thesis by (simp only: Nil rev.simps dropWhile.simps)
  next
    case (Cons x xs)
    then have "\<not> js_whitespace x"
      using hd_dropWhile [of js_whitespace s] by simp
    then show ?thesis
      using Cons by (auto simp: dropWhile_eq_Nil_conv)
  qed
  then have "trim s = [] \<longleftrightarrow> dropWhile js_whitespace s = []"
    unfolding trim_def rev_is_Nil_conv .
  also have "\<dots> \<longleftrightarrow> list_all js_whitespace s"
    by (simp add: dropWhile_eq_Nil_conv list_all_iff)
  finally show ?thesis .
qed

lemma generateDeepfakeAudio_blank:
  assumes "text = [] \<or> list_all js_whitespace text"
  shows "\<exists>e. generateDeepfakeAudio env text = ([], Inl e)"
proof (cases "getAI env")
  case (Inl e)
  then show ?thesis by (simp add: generateDeepfakeAudio_def)
next
  case (Inr ai)
  from assms have "trim text = []"
    by (auto simp: trim_empty_iff)
  with Inr show ?thesis by (simp add: generateDeepfakeAudio_def)
qed

lemma generateDeepfakeAudio_no_audio:
  assumes "getAI env = Inr ai"
    and "\<not> (text = [] \<or> list_all js_whitespace text)"
    and "ai (tts_request text) = Inr response"
    and "base64Audio response = None \<or> base64Audio response = Some []"
  shows "generateDeepfakeAudio env text =
     ([tts_request text], Inl (Error ''No audio data received from Gemini API''))"
proof -
  from assms(2) have "trim text \<noteq> []" and "text \<noteq> []"
    by (auto simp: trim_empty_iff)
  with assms(1,3,4) show ?thesis
    by (auto simp: generateDeepfakeAudio_def)
qed

text \<open>
  C10. When the text is empty or consists of white space only, \<open>generateDeepfakeAudio\<close>
  throws and has made no API call. When the text is not blank, the client exists and the
  API answers with a response that holds no inline audio data (the chain ends in
  \<^verbatim>\<open>undefined\<close> or in an empty string), it throws "No audio data received from Gemini API"
  after that one call.
\<close>

theorem generateDeepfakeAudio_throws:
  "(text = [] \<or> list_all js_whitespace text \<longrightarrow>
      (\<exists>e. generateDeepfakeAudio env text = ([], Inl e))) \<and>
   (getAI env = Inr ai \<and> \<not> (text = [] \<or> list_all js_whitespace text) \<and>
    ai (tts_request text) = Inr response \<and>
    (base64Audio response = None \<or> base64Audio response = Some []) \<longrightarrow>
      generateDeepfakeAudio env text =
        ([tts_request text], Inl (Error ''No audio data received from Gemini API'')))"
  using generateDeepfakeAudio_blank [of "text" env]
    generateDeepfakeAudio_no_audio [of env ai "text" response]
  by blast

text \<open>
  A service with a key whose every response has an empty list of candidates.
\<close>

definition silent_gemini :: gemini where
  "silent_gemini =
     \<lparr>GEMINI_API_KEY = Some (lit ''key''),
      generateContent =
        (\<lambda>apiKey request. Inr \<lparr>response_candidates = Some [], response_text = []\<rparr>)\<rparr>"

theorem generateDeepfakeAudio_throws_witness:
  "list_all js_whitespace (lit ''  '') \<and>
   generateDeepfakeAudio silent_gemini (lit ''  '') =
     ([], Inl (Error ''Text for audio generation cannot be empty'')) \<and>
   \<not> (lit ''hello'' = [] \<or> list_all js_whitespace (lit ''hello'')) \<and>
   base64Audio \<lparr>response_candidates = Some [], response_text = []\<rparr> = None \<and>
   generateDeepfakeAudio silent_gemini (lit ''hello'') =
     ([tts_request (lit ''hello'')], Inl (Error ''No audio data received from Gemini API''))"
proof -
  have ws: "list_all js_whitespace (lit ''  '')"
    by (simp add: js_whitespace_def lit_def)
  have nws: "\<not> (lit ''hello'' = [] \<or> list_all js_whitespace (lit ''hello''))"
    by (simp add: js_whitespace_def lit_def)
  have ai: "getAI silent_gemini = Inr (generateContent silent_gemini (lit ''key''))"
    by (simp add: getAI_def silent_gemini_def lit_def)
  have resp: "generateContent silent_gemini (lit ''key'') (tts_request (lit ''hello'')) =
      Inr \<lparr>response_candidates = Some [], response_text = []\<rparr>"
    by (simp add: silent_gemini_def)
  have none: "base64Audio \<lparr>response_candidates = Some [], response_text = []\<rparr> = None"
    by (simp add: base64Audio_def first_element_def)
  have blank: "generateDeepfakeAudio silent_gemini (lit ''  '') =
      ([], Inl (Error ''Text for audio generation cannot be empty''))"
    using ws ai by (simp add: generateDeepfakeAudio_def trim_empty_iff)
  from generateDeepfakeAudio_throws
    [of "lit ''hello''" silent_gemini "generateContent silent_gemini (lit ''key'')"
        "\<lparr>response_candidates = Some [], response_text = []\<rparr>"]
    ws nws ai resp none blank
  show ?thesis by blast
qed

section \<open>POST /api/results (the Express server)\<close>

text \<open>
  A field of the JSON request body, as JavaScript sees it after \<^verbatim>\<open>express.json()\<close>:
  \<^verbatim>\<open>undefined\<close> when the key is absent, \<^verbatim>\<open>null\<close>, a boolean, an integer, a number
  that is not an integer, a string, an array of such values, or an object. \<open>truthy\<close> is
  JavaScript's \<^verbatim>\<open>ToBoolean\<close> and \<open>js_or\<close> is \<^verbatim>\<open>a || b\<close>.
\<close>

datatype js_value =
    JUndefined
  | JNull
  | JBool bool
  | JNumber int
  | JFraction
  | JString js_string
  | JArray "js_value list"
  | JObject

fun truthy :: "js_value \<Rightarrow> bool" where
  "truthy JUndefined = False"
| "truthy JNull = False"
| "truthy (JBool b) = b"
| "truthy (JNumber n) = (n \<noteq> 0)"
| "truthy JFraction = True"
| "truthy (JString s) = (s \<noteq> [])"
| "truthy (JArray xs) = True"
| "truthy JObject = True"

definition js_or :: "js_value \<Rightarrow> js_value \<Rightarrow> js_value" where
  "js_or a b = (if truthy a then a else b)"

record request_body =
  body_employee_id :: js_value
  body_simulation_id :: js_value
  body_campaign_id :: js_value
  body_is_correct :: js_value
  body_response_time :: js_value
  body_feedback :: js_value

text \<open>
  What reaches SQLite as the value of a placeholder: \<^verbatim>\<open>NULL\<close>, an integer, a real that
  is not an integer, or a text.
\<close>

datatype sql_value = SqlNull | SqlInteger int | SqlReal | SqlText js_string

text \<open>
  The tables that the handler touches. \<^verbatim>\<open>security_score\<close> is the column
  \<^verbatim>\<open>INTEGER DEFAULT 100\<close> of \<^verbatim>\<open>employees\<close>; of the campaigns only the keys matter.
\<close>

record employee =
  emp_id :: int
  emp_name :: string
  emp_email :: string
  emp_dept_id :: "int option"
  security_score :: int

record simulation =
  sim_id :: int
  sim_type :: string
  sim_difficulty :: int

record result_row =
  res_id :: int
  res_employee_id :: sql_value
  res_simulation_id :: sql_value
  res_campaign_id :: sql_value
  res_is_correct :: sql_value
  res_response_time :: sql_value
  res_feedback :: sql_value

record database =
  employees :: "employee list"
  simulations :: "simulation list"
  campaign_ids :: "int list"
  results :: "result_row list"

text \<open>
  The database driver and engine are not the repository's; three things about them are
  parameters. \<open>bind_parameters\<close> is what \<^verbatim>\<open>statement.run(...)\<close> makes of its arguments
  for a statement with a number of placeholders: the values of the placeholders in their
  order, or the exception it throws (the driver refuses some values, and spreads an array
  argument over several placeholders). \<open>foreign_keys\<close> says whether foreign keys are
  enforced. \<open>integer_of_text\<close> is the integer, if any, that a text value stands for when
  it is compared with an integer key (the column's affinity). \<open>key_of\<close> is the integer
  key that a bound value selects; a number that is not an integer selects none.
\<close>

record sqlite =
  bind_parameters :: "nat \<Rightarrow> js_value list \<Rightarrow> error + sql_value list"
  foreign_keys :: bool
  integer_of_text :: "js_string \<Rightarrow> int option"

fun key_of :: "sqlite \<Rightarrow> sql_value \<Rightarrow> int option" where
  "key_of engine SqlNull = None"
| "key_of engine (SqlInteger n) = Some n"
| "key_of engine SqlReal = None"
| "key_of engine (SqlText s) = integer_of_text engine s"

text \<open>
  An \<^verbatim>\<open>AUTOINCREMENT\<close> key: one more than the largest key so far (no row is ever
  deleted).
\<close>

definition next_rowid :: "int list \<Rightarrow> int" where
  "next_rowid ids = foldr max ids 0 + 1"

definition references :: "sqlite \<Rightarrow> sql_value \<Rightarrow> int list \<Rightarrow> bool" where
  "references engine v ids =
     (v = SqlNull \<or> (case key_of engine v of None \<Rightarrow> False | Some k \<Rightarrow> List.member ids k))"

text \<open>
  The three statements of the handler. The \<^verbatim>\<open>INSERT INTO simulations\<close> is run with a
  string and a number of the handler's own. The \<^verbatim>\<open>INSERT INTO results\<close>, with six
  placeholders, throws when the driver does not bind its arguments or, with foreign keys
  enforced, when a reference has no parent row. The
  \<^verbatim>\<open>UPDATE employees SET security_score = ... WHERE id = ?\<close>, with one placeholder,
  changes the rows that the bound value selects; SQL's two-argument \<^verbatim>\<open>MAX\<close> and
  \<^verbatim>\<open>MIN\<close> are \<open>max\<close> and \<open>min\<close>.
\<close>

definition insert_simulation :: "database \<Rightarrow> string \<Rightarrow> int \<Rightarrow> database \<times> int" where
  "insert_simulation db type difficulty =
     (let rowid = next_rowid (map sim_id (simulations db))
      in (db\<lparr>simulations := simulations db @
               [\<lparr>sim_id = rowid, sim_type = type, sim_difficulty = difficulty\<rparr>]\<rparr>, rowid))"

definition insert_result ::
    "sqlite \<Rightarrow> database \<Rightarrow> js_value \<Rightarrow> js_value \<Rightarrow> js_value \<Rightarrow> js_value \<Rightarrow> js_value \<Rightarrow>
     js_value \<Rightarrow> error + database \<times> int" where
  "insert_result engine db employee_id simulation_id campaign_id is_correct response_time
     feedback =
     (case bind_parameters engine 6
             [employee_id, simulation_id, campaign_id, is_correct, response_time, feedback] of
        Inr [e, s, c, ok, t, f] \<Rightarrow>
          if foreign_keys engine \<and>
             \<not> (references engine e (map emp_id (employees db)) \<and>
                references engine s (map sim_id (simulations db)) \<and>
                references engine c (campaign_ids db))
          then Inl SqliteError
          else let rowid = next_rowid (map res_id (results db))
               in Inr (db\<lparr>results := results db @
                         [\<lparr>res_id = rowid, res_employee_id = e, res_simulation_id = s,
                           res_campaign_id = c, res_is_correct = ok, res_response_time = t,
                           res_feedback = f\<rparr>]\<rparr>, rowid)
      | Inr _ \<Rightarrow> Inl RangeError
      | Inl err \<Rightarrow> Inl err)"

definition update_security_score ::
    "sqlite \<Rightarrow> database \<Rightarrow> (int \<Rightarrow> int) \<Rightarrow> js_value \<Rightarrow> error + database" where
  "update_security_score engine db new_score id_param =
     (case bind_parameters engine 1 [id_param] of
        Inr [v] \<Rightarrow>
          Inr (db\<lparr>employees :=
                 map (\<lambda>e. if key_of engine v = Some (emp_id e)
                           then e\<lparr>security_score := new_score (security_score e)\<rparr>
                           else e)
                     (employees db)\<rparr>)
      | Inr _ \<Rightarrow> Inl RangeError
      | Inl err \<Rightarrow> Inl err)"

text \<open>
  The handler: the database after the request, and the \<^verbatim>\<open>id\<close> of the response or the
  exception that ends the request. An exception leaves the statements already run in
  place.
\<close>

definition post_results ::
    "sqlite \<Rightarrow> database \<Rightarrow> request_body \<Rightarrow> database \<times> (error + int)" where
  "post_results engine db body =
     (let employee_id = body_employee_id body;
          simulation_id = body_simulation_id body;
          campaign_id = body_campaign_id body;
          is_correct = body_is_correct body;
          response_time = body_response_time body;
          feedback = body_feedback body;
          (db1, simId) =
            (if \<not> truthy simulation_id
             then (let (db', rowid) = insert_simulation db ''unknown'' 1 in (db', JNumber rowid))
             else (db, simulation_id))
      in case insert_result engine db1 (js_or employee_id (JNumber 1)) simId
                (js_or campaign_id JNull) (JNumber (if truthy is_correct then 1 else 0))
                (js_or response_time (JNumber 0)) (js_or feedback (JString [])) of
           Inl err \<Rightarrow> (db1, Inl err)
         | Inr (db2, lastInsertRowid) \<Rightarrow>
             (case (if \<not> truthy is_correct
                    then update_security_score engine db2
                           (\<lambda>security_score. max 0 (security_score - 5))
                           (js_or employee_id (JNumber 1))
                    else update_security_score engine db2
                           (\<lambda>security_score. min 100 (security_score + 2))
                           (js_or employee_id (JNumber 1))) of
                Inl err \<Rightarrow> (db2, Inl err)
              | Inr db3 \<Rightarrow> (db3, Inr lastInsertRowid)))"

text \<open>
  The database after \<^verbatim>\<open>seed()\<close>: three employees, none with a score given, so each at the
  default 100.
\<close>

definition seeded_database :: database where
  "seeded_database =
     \<lparr>employees =
        [\<lparr>emp_id = 1, emp_name = ''Alice Chen'', emp_email = ''alice@corp.com'',
          emp_dept_id = Some 1, security_score = 100\<rparr>,
         \<lparr>emp_id = 2, emp_name = ''Bob Smith'', emp_email = ''bob@corp.com'',
          emp_dept_id = Some 2, security_score = 100\<rparr>,
         \<lparr>emp_id = 3, emp_name = ''Charlie Day'', emp_email = ''charlie@corp.com'',
          emp_dept_id = Some 3, security_score = 100\<rparr>],
      simulations = [], campaign_ids = [], results = []\<rparr>"







text \<open>
  The key that the value bound for \<^verbatim>\<open>employee_id || 1\<close> selects in the \<^verbatim>\<open>UPDATE\<close>.
\<close>

definition target_key :: "sqlite \<Rightarrow> request_body \<Rightarrow> int option" where
  "target_key engine body =
     (case bind_parameters engine 1 [js_or (body_employee_id body) (JNumber 1)] of
        Inr [v] \<Rightarrow> key_of engine v
      | _ \<Rightarrow> None)"





text \<open>
  An engine to run the handler with. It enforces foreign keys, as the driver does unless
  told otherwise, reads no text as an integer, binds \<^verbatim>\<open>null\<close>, numbers and strings,
  spreads an array of them over as many placeholders, refuses every other argument with a
  \<^verbatim>\<open>TypeError\<close>, and a list of values that is not as long as the statement has
  placeholders with a \<^verbatim>\<open>RangeError\<close>.
\<close>

fun bind_value :: "js_value \<Rightarrow> error + sql_value" where
  "bind_value JNull = Inr SqlNull"
| "bind_value (JNumber n) = Inr (SqlInteger n)"
| "bind_value JFraction = Inr SqlReal"
| "bind_value (JString s) = Inr (SqlText s)"
| "bind_value JUndefined = Inl TypeError"
| "bind_value (JBool b) = Inl TypeError"
| "bind_value (JArray xs) = Inl TypeError"
| "bind_value JObject = Inl TypeError"

fun bind_values :: "js_value list \<Rightarrow> error + sql_value list" where
  "bind_values [] = Inr []"
| "bind_values (v # vs) =
     (case bind_value v of
        Inl e \<Rightarrow> Inl e
      | Inr x \<Rightarrow> (case bind_values vs of Inl e \<Rightarrow> Inl e | Inr xs \<Rightarrow> Inr (x # xs)))"

fun spread :: "js_value list \<Rightarrow> js_value list" where
  "spread [] = []"
| "spread (JArray xs # rest) = xs @ spread rest"
| "spread (v # rest) = v # spread rest"

definition driver_bind :: "nat \<Rightarrow> js_value list \<Rightarrow> error + sql_value list" where
  "driver_bind placeholders arguments =
     (case bind_values (spread arguments) of
        Inl e \<Rightarrow> Inl e
      | Inr vs \<Rightarrow> if length vs = placeholders then Inr vs else Inl RangeError)"

definition checking_engine :: sqlite where
  "checking_engine =
     \<lparr>bind_parameters = driver_bind, foreign_keys = True, integer_of_text = (\<lambda>s. None)\<rparr>"

text \<open>
  Three bodies: a wrong answer that names neither employee nor simulation; the body that
  the front end posts after a wrong deepfake guess, with simulation 3; and a wrong answer
  whose \<^verbatim>\<open>employee_id\<close> is the array \<^verbatim>\<open>[2]\<close>.
\<close>

definition plain_miss :: request_body where
  "plain_miss =
     \<lparr>body_employee_id = JUndefined, body_simulation_id = JUndefined,
      body_campaign_id = JUndefined, body_is_correct = JBool False,
      body_response_time = JNumber 15000, body_feedback = JString (lit ''Incorrect.'')\<rparr>"

definition deepfake_miss :: request_body where
  "deepfake_miss = plain_miss\<lparr>body_simulation_id := JNumber 3\<rparr>"

definition array_miss :: request_body where
  "array_miss = plain_miss\<lparr>body_employee_id := JArray [JNumber 2]\<rparr>"


text \<open>
  With foreign keys enforced and no simulation 3 in the table, the deepfake body ends in an
  exception before the \<^verbatim>\<open>UPDATE\<close>, and with the array the handler lowers employee 2.
\<close>

lemma post_results_deepfake_refused:
  "post_results checking_engine seeded_database deepfake_miss = (seeded_database, Inl SqliteError)"
  by (simp add: post_results_def deepfake_miss_def plain_miss_def checking_engine_def
      seeded_database_def insert_result_def Let_def js_or_def driver_bind_def references_def
      lit_def)

lemma post_results_array_id:
  "map security_score
     (employees (fst (post_results checking_engine seeded_database array_miss))) =
   [100, 95, 100]"
  by (simp add: post_results_def array_miss_def plain_miss_def checking_engine_def
      seeded_database_def insert_result_def insert_simulation_def Let_def js_or_def
      next_rowid_def update_security_score_def driver_bind_def references_def
      lit_def)

text \<open>
  With this engine the row that a request targets is employee 1 when \<^verbatim>\<open>employee_id\<close> is
  absent or falsy, and employee \<open>n\<close> when it is the number \<open>n\<close>.
\<close>

lemma target_key_default:
  "\<not> truthy (body_employee_id body) \<Longrightarrow> target_key checking_engine body = Some 1"
  by (simp add: target_key_def js_or_def checking_engine_def driver_bind_def)

lemma target_key_number:
  "body_employee_id body = JNumber n \<Longrightarrow> n \<noteq> 0 \<Longrightarrow>
   target_key checking_engine body = Some n"
  by (simp add: target_key_def js_or_def checking_engine_def driver_bind_def)

section \<open>Simulation outcomes (App.tsx)\<close>

text \<open>
  The object kept in the \<^verbatim>\<open>feedback\<close> state and shown to the user: score, feedback text,
  correct and missed flags.
\<close>

record analysis =
  fb_score :: int
  fb_feedback :: js_string
  fb_correctFlags :: "js_string list"
  fb_missedFlags :: "js_string list"

text \<open>
  \<^verbatim>\<open>analyzeSimulationResponse\<close> (geminiService.ts): one request to the model with the
  prompt built from the simulation and the flags (\<^verbatim>\<open>userFlags.join(", ")\<close>), and
  \<^verbatim>\<open>JSON.parse\<close> of the text of the response. The parser is a parameter: it returns the
  object or the exception. Like \<open>generateDeepfakeAudio\<close> it returns the calls made and the
  outcome.
\<close>

definition join :: "js_string \<Rightarrow> js_string list \<Rightarrow> js_string" where
  "join sep xs = (case xs of [] \<Rightarrow> [] | y # ys \<Rightarrow> y @ concat (map (\<lambda>z. sep @ z) ys))"

definition analysis_request :: "js_string \<Rightarrow> js_string list \<Rightarrow> request" where
  "analysis_request simulationContent userFlags =
     \<lparr>request_model = ''gemini-3.1-pro-preview'',
      request_contents =
        lit ''Analyze a user's response to a phishing simulation.\<newline>  Simulation Content: '' @
        simulationContent @ lit ''\<newline>  User Identified Flags: '' @
        join (lit '', '') userFlags @
        lit ''\<newline>  \<newline>  Provide feedback on:\<newline>  - What they missed.\<newline>  - What they correctly identified.\<newline>  - Overall score (0-100).\<newline>  - Encouraging advice.'',
      request_config = JsonConfig [''score'', ''missedFlags'', ''correctFlags'', ''feedback'']\<rparr>"

definition analyzeSimulationResponse ::
    "gemini \<Rightarrow> (js_string \<Rightarrow> error + analysis) \<Rightarrow> js_string \<Rightarrow> js_string list \<Rightarrow>
     request list \<times> (error + analysis)" where
  "analyzeSimulationResponse env JSON_parse simulationContent userFlags =
     (case getAI env of
        Inl e \<Rightarrow> ([], Inl e)
      | Inr ai \<Rightarrow>
          (case ai (analysis_request simulationContent userFlags) of
             Inl e \<Rightarrow> ([analysis_request simulationContent userFlags], Inl e)
           | Inr response \<Rightarrow>
               ([analysis_request simulationContent userFlags],
                JSON_parse (response_text response))))"

text \<open>
  The state of the \<^verbatim>\<open>App\<close> component that the three handlers read or write. A simulation
  is kept as its \<^verbatim>\<open>JSON.stringify\<close> text, the only way \<^verbatim>\<open>submitAnalysis\<close> uses it.
\<close>

datatype view =
    Dashboard | Email_sim | Deepfake_sim | Phone_sim | Analytics | Reports
  | Admin_dashboard | Admin_campaigns | Admin_departments

datatype voice = Authentic | Synthetic

record app_state =
  currentView :: view
  emailSim :: "js_string option"
  phoneSim :: "js_string option"
  deepfakeAudio :: "js_string option"
  deepfakeSolution :: "voice option"
  loading :: bool
  selectedFlags :: "js_string list"
  feedback :: "analysis option"

text \<open>
  What a handler does to the outside, in order: calls of the generative API, the
  \<^verbatim>\<open>POST /api/results\<close> with its body, the two refreshing fetches, an alert, a logged
  exception.
\<close>

datatype event =
    ApiCall request
  | PostResults request_body
  | FetchStats
  | FetchReports
  | Alert string
  | ConsoleError error

text \<open>
  The outside: the generative API, \<^verbatim>\<open>JSON.parse\<close>, and whether the \<^verbatim>\<open>POST\<close> fails (the
  exception of a rejected \<^verbatim>\<open>fetch\<close>).
\<close>

record services =
  gemini_api :: gemini
  JSON_parse :: "js_string \<Rightarrow> error + analysis"
  fetch_post :: "request_body \<Rightarrow> error option"

text \<open>
  \<^verbatim>\<open>startDeepfakeChallenge\<close>: the state after the handler and its events.
\<close>

definition startDeepfakeChallenge :: "services \<Rightarrow> app_state \<Rightarrow> app_state \<times> event list" where
  "startDeepfakeChallenge svc st =
     (let st1 = st\<lparr>loading := True, feedback := None\<rparr>;
          text = lit ''This is a highly confidential message from the executive office. We need you to authorize the transfer immediately to avoid any legal complications.'';
          (calls, outcome) = generateDeepfakeAudio (gemini_api svc) text
      in case outcome of
           Inr audio \<Rightarrow>
             (st1\<lparr>deepfakeAudio := (if audio = [] then None else Some audio),
                  deepfakeSolution := Some Synthetic,
                  currentView := Deepfake_sim,
                  loading := False\<rparr>,
              map ApiCall calls)
         | Inl e \<Rightarrow>
             (st1\<lparr>loading := False\<rparr>,
              map ApiCall calls @
              [ConsoleError e,
               Alert ''Failed to generate deepfake challenge. Please check your connection.'']))"

text \<open>
  \<^verbatim>\<open>handleDeepfakeGuess\<close>. The \<^verbatim>\<open>fetch\<close> is not inside a \<^verbatim>\<open>try\<close>: when it fails, the
  handler's promise is rejected with the exception (the third component) after the feedback
  has been set.
\<close>

definition handleDeepfakeGuess ::
    "services \<Rightarrow> app_state \<Rightarrow> voice \<Rightarrow> app_state \<times> event list \<times> error option" where
  "handleDeepfakeGuess svc st guess =
     (case deepfakeSolution st of
        None \<Rightarrow> (st, [], None)
      | Some solution \<Rightarrow>
          let isCorrect = (guess = solution);
              feedbackMsg =
                (if isCorrect
                 then lit ''Correct! You identified the synthetic patterns in the voice. Notice the slight lack of natural breathing and the consistent pitch.''
                 else lit ''Incorrect. This was an AI-generated clone. Modern deepfakes can be extremely convincing, but often lack the subtle emotional variance of human speech.'');
              result =
                \<lparr>fb_score = (if isCorrect then 100 else 0),
                 fb_feedback = feedbackMsg,
                 fb_correctFlags = (if isCorrect then [lit ''AI Voice Pattern''] else []),
                 fb_missedFlags =
                   (if isCorrect then [] else [lit ''Synthetic Pitch Consistency''])\<rparr>;
              st1 = st\<lparr>feedback := Some result\<rparr>;
              body =
                \<lparr>body_employee_id = JUndefined, body_simulation_id = JNumber 3,
                 body_campaign_id = JUndefined, body_is_correct = JBool isCorrect,
                 body_response_time = JNumber 15000, body_feedback = JString feedbackMsg\<rparr>
          in case fetch_post svc body of
               Some e \<Rightarrow> (st1, [PostResults body], Some e)
             | None \<Rightarrow> (st1, [PostResults body, FetchStats, FetchReports], None))"

text \<open>
  \<^verbatim>\<open>submitAnalysis\<close>: everything after \<^verbatim>\<open>setLoading(true)\<close> is inside
  \<^verbatim>\<open>try ... catch ... finally\<close>.
\<close>

definition submitAnalysis :: "services \<Rightarrow> app_state \<Rightarrow> app_state \<times> event list" where
  "submitAnalysis svc st =
     (case (if currentView st = Email_sim then emailSim st else phoneSim st) of
        None \<Rightarrow> (st, [])
      | Some currentSim \<Rightarrow>
          let st1 = st\<lparr>loading := True\<rparr>;
              (calls, outcome) =
                analyzeSimulationResponse (gemini_api svc) (JSON_parse svc) currentSim
                  (selectedFlags st)
          in case outcome of
               Inl e \<Rightarrow> (st1\<lparr>loading := False\<rparr>, map ApiCall calls @ [ConsoleError e])
             | Inr result \<Rightarrow>
                 let st2 = st1\<lparr>feedback := Some result\<rparr>;
                     body =
                       \<lparr>body_employee_id = JUndefined,
                        body_simulation_id =
                          JNumber (if currentView st = Email_sim then 1 else 2),
                        body_campaign_id = JUndefined,
                        body_is_correct = JBool (fb_score result > 70),
                        body_response_time = JNumber 45000,
                        body_feedback = JString (fb_feedback result)\<rparr>
                 in case fetch_post svc body of
                      Some e \<Rightarrow>
                        (st2\<lparr>loading := False\<rparr>,
                         map ApiCall calls @ [PostResults body, ConsoleError e])
                    | None \<Rightarrow>
                        (st2\<lparr>loading := False\<rparr>,
                         map ApiCall calls @ [PostResults body, FetchStats, FetchReports]))"

text \<open>
  An outcome is produced by the API when it is the parsed reply to one of the API calls
  among the handler's events.
\<close>

definition api_reply :: "services \<Rightarrow> request \<Rightarrow> error + analysis" where
  "api_reply svc req =
     (case getAI (gemini_api svc) of
        Inl e \<Rightarrow> Inl e
      | Inr ai \<Rightarrow>
          (case ai req of Inl e \<Rightarrow> Inl e | Inr response \<Rightarrow> JSON_parse svc (response_text response)))"

fun is_reply_of :: "services \<Rightarrow> analysis \<Rightarrow> event \<Rightarrow> bool" where
  "is_reply_of svc result (ApiCall req) = (api_reply svc req = Inr result)"
| "is_reply_of svc result _ = False"

definition produced_by_api :: "services \<Rightarrow> event list \<Rightarrow> analysis option \<Rightarrow> bool" where
  "produced_by_api svc events shown =
     (case shown of None \<Rightarrow> True | Some result \<Rightarrow> list_ex (is_reply_of svc result) events)"

fun is_api_call :: "event \<Rightarrow> bool" where
  "is_api_call (ApiCall req) = True"
| "is_api_call _ = False"

text \<open>
  The state of a freshly mounted component, and a service that answers every request with
  a clip and the text of an analysis scored 50.
\<close>

definition initial_state :: app_state where
  "initial_state =
     \<lparr>currentView = Dashboard, emailSim = None, phoneSim = None, deepfakeAudio = None,
      deepfakeSolution = None, loading = False, selectedFlags = [], feedback = None\<rparr>"

definition demo_gemini :: gemini where
  "demo_gemini =
     \<lparr>GEMINI_API_KEY = Some (lit ''key''),
      generateContent = (\<lambda>apiKey req.
        Inr \<lparr>response_candidates =
               Some [\<lparr>candidate_content =
                        Some \<lparr>content_parts =
                                 Some [\<lparr>part_inlineData =
                                          Some \<lparr>inline_data = Some (lit ''SGk='')\<rparr>\<rparr>]\<rparr>\<rparr>],
             response_text = lit ''reply''\<rparr>)\<rparr>"

definition demo_services :: services where
  "demo_services =
     \<lparr>gemini_api = demo_gemini,
      JSON_parse = (\<lambda>s. Inr \<lparr>fb_score = 50, fb_feedback = lit ''Keep going.'',
                               fb_correctFlags = [], fb_missedFlags = []\<rparr>),
      fetch_post = (\<lambda>body. None)\<rparr>"

text \<open>
  The sentence that \<open>startDeepfakeChallenge\<close> has read, and two states to run the
  handlers in: one showing an email simulation with one flag selected, and the one after a
  deepfake challenge has been started.
\<close>

definition challenge_text :: js_string where
  "challenge_text = lit ''This is a highly confidential message from the executive office. We need you to authorize the transfer immediately to avoid any legal complications.''"

definition demo_analysis :: analysis where
  "demo_analysis =
     \<lparr>fb_score = 50, fb_feedback = lit ''Keep going.'', fb_correctFlags = [],
      fb_missedFlags = []\<rparr>"

definition email_state :: app_state where
  "email_state =
     initial_state\<lparr>currentView := Email_sim, emailSim := Some (lit ''{}''),
                   selectedFlags := [lit ''Urgency'']\<rparr>"

definition challenge_state :: app_state where
  "challenge_state = fst (startDeepfakeChallenge demo_services initial_state)"

lemma submitAnalysis_feedback:
  "(case (if currentView st = Email_sim then emailSim st else phoneSim st) of
      None \<Rightarrow> submitAnalysis svc st = (st, [])
    | Some currentSim \<Rightarrow>
        (case api_reply svc (analysis_request currentSim (selectedFlags st)) of
           Inl e \<Rightarrow> feedback (fst (submitAnalysis svc st)) = feedback st
         | Inr result \<Rightarrow>
             feedback (fst (submitAnalysis svc st)) = Some result \<and>
             produced_by_api svc (snd (submitAnalysis svc st)) (Some result)))"
  by (auto simp: submitAnalysis_def analyzeSimulationResponse_def produced_by_api_def
      api_reply_def Let_def split: option.splits sum.splits)

lemma handleDeepfakeGuess_local:
  assumes "deepfakeSolution st = Some solution"
  shows "map_option fb_score (feedback (fst (handleDeepfakeGuess svc st guess))) =
       Some (if guess = solution then 100 else 0)"
    and "map_option fb_correctFlags (feedback (fst (handleDeepfakeGuess svc st guess))) =
       Some (if guess = solution then [lit ''AI Voice Pattern''] else [])"
    and "map_option fb_missedFlags (feedback (fst (handleDeepfakeGuess svc st guess))) =
       Some (if guess = solution then [] else [lit ''Synthetic Pitch Consistency''])"
    and "feedback (fst (handleDeepfakeGuess svc' st guess)) =
       feedback (fst (handleDeepfakeGuess svc st guess))"
    and "\<not> list_ex is_api_call (fst (snd (handleDeepfakeGuess svc st guess)))"
  using assms
  by (simp_all add: handleDeepfakeGuess_def Let_def split: option.splits)

lemma startDeepfakeChallenge_solution:
  "deepfakeSolution (fst (startDeepfakeChallenge svc st)) =
     (case snd (generateDeepfakeAudio (gemini_api svc) challenge_text) of
        Inr audio \<Rightarrow> Some Synthetic
      | Inl e \<Rightarrow> deepfakeSolution st)"
  by (simp add: startDeepfakeChallenge_def challenge_text_def Let_def
      split: prod.splits sum.splits)

text \<open>
  C7 (as amended). In an email or phone simulation \<open>submitAnalysis\<close> shows the reply of
  the external API to its request, which is among the handler's calls; when the call or
  the parsing of its reply fails, what is shown stays as it was, and without a current
  simulation the handler does nothing. In the deepfake challenge the outcome is the
  repository's own: \<open>startDeepfakeChallenge\<close> sets the solution to \<open>Synthetic\<close> whenever
  the generation of the audio succeeds, whatever the audio is, and leaves it as it was
  when the generation fails; with a solution set, \<open>handleDeepfakeGuess\<close> shows score 100
  when the guess equals it and 0 otherwise, with fixed flags, independently of the
  services and without a call of the API.
\<close>

theorem outcome_sources:
  "(case (if currentView st = Email_sim then emailSim st else phoneSim st) of
      None \<Rightarrow> submitAnalysis svc st = (st, [])
    | Some currentSim \<Rightarrow>
        (case api_reply svc (analysis_request currentSim (selectedFlags st)) of
           Inl e \<Rightarrow> feedback (fst (submitAnalysis svc st)) = feedback st
         | Inr result \<Rightarrow>
             feedback (fst (submitAnalysis svc st)) = Some result \<and>
             produced_by_api svc (snd (submitAnalysis svc st)) (Some result))) \<and>
   deepfakeSolution (fst (startDeepfakeChallenge svc st)) =
     (case snd (generateDeepfakeAudio (gemini_api svc) challenge_text) of
        Inr audio \<Rightarrow> Some Synthetic
      | Inl e \<Rightarrow> deepfakeSolution st) \<and>
   (deepfakeSolution st = Some solution \<longrightarrow>
      map_option fb_score (feedback (fst (handleDeepfakeGuess svc st guess))) =
        Some (if guess = solution then 100 else 0) \<and>
      map_option fb_correctFlags (feedback (fst (handleDeepfakeGuess svc st guess))) =
        Some (if guess = solution then [lit ''AI Voice Pattern''] else []) \<and>
      map_option fb_missedFlags (feedback (fst (handleDeepfakeGuess svc st guess))) =
        Some (if guess = solution then [] else [lit ''Synthetic Pitch Consistency'']) \<and>
      feedback (fst (handleDeepfakeGuess svc' st guess)) =
        feedback (fst (handleDeepfakeGuess svc st guess)) \<and>
      \<not> list_ex is_api_call (fst (snd (handleDeepfakeGuess svc st guess))))"
proof (intro conjI impI)
  assume "deepfakeSolution st = Some solution"
  note local = handleDeepfakeGuess_local [OF this]
  show "map_option fb_score (feedback (fst (handleDeepfakeGuess svc st guess))) =
      Some (if guess = solution then 100 else 0)"
    by (rule local)
  show "map_option fb_correctFlags (feedback (fst (handleDeepfakeGuess svc st guess))) =
      Some (if guess = solution then [lit ''AI Voice Pattern''] else [])"
    by (rule local)
  show "map_option fb_missedFlags (feedback (fst (handleDeepfakeGuess svc st guess))) =
      Some (if guess = solution then [] else [lit ''Synthetic Pitch Consistency''])"
    by (rule local)
  show "feedback (fst (handleDeepfakeGuess svc' st guess)) =
      feedback (fst (handleDeepfakeGuess svc st guess))"
    by (rule local)
  show "\<not> list_ex is_api_call (fst (snd (handleDeepfakeGuess svc st guess)))"
    by (rule local)
qed (rule submitAnalysis_feedback startDeepfakeChallenge_solution)+

lemma demo_generation:
  "snd (generateDeepfakeAudio (gemini_api demo_services) challenge_text) = Inr (lit ''SGk='')"
  by (simp add: generateDeepfakeAudio_def getAI_def demo_services_def demo_gemini_def
      challenge_text_def base64Audio_def first_element_def trim_def js_whitespace_def lit_def)

lemma start_demo: "deepfakeSolution challenge_state = Some Synthetic"
  unfolding challenge_state_def
  by (simp add: startDeepfakeChallenge_solution demo_generation)

lemma demo_reply: "api_reply demo_services req = Inr demo_analysis"
  by (simp add: api_reply_def getAI_def demo_services_def demo_gemini_def demo_analysis_def
      lit_def)

lemma email_current:
  "(if currentView email_state = Email_sim then emailSim email_state
    else phoneSim email_state) = Some (lit ''{}'')"
  by (simp add: email_state_def initial_state_def)

theorem outcome_sources_witness:
  "feedback (fst (submitAnalysis demo_services email_state)) = Some demo_analysis \<and>
   produced_by_api demo_services (snd (submitAnalysis demo_services email_state))
     (Some demo_analysis) \<and>
   deepfakeSolution (fst (startDeepfakeChallenge demo_services initial_state)) =
     Some Synthetic \<and>
   deepfakeSolution challenge_state = Some Synthetic \<and>
   map_option fb_score
     (feedback (fst (handleDeepfakeGuess demo_services challenge_state Authentic))) = Some 0 \<and>
   \<not> list_ex is_api_call
     (fst (snd (handleDeepfakeGuess demo_services challenge_state Authentic)))"
proof -
  have analysed:
    "feedback (fst (submitAnalysis demo_services email_state)) = Some demo_analysis \<and>
     produced_by_api demo_services (snd (submitAnalysis demo_services email_state))
       (Some demo_analysis)"
    using outcome_sources
        [where st = email_state and svc = demo_services and solution = Synthetic and
          guess = Authentic and svc' = demo_services]
    unfolding email_current by (simp add: demo_reply)
  have started:
    "deepfakeSolution (fst (startDeepfakeChallenge demo_services initial_state)) =
       Some Synthetic"
    using outcome_sources
        [where st = initial_state and svc = demo_services and solution = Synthetic and
          guess = Authentic and svc' = demo_services]
    by (simp add: demo_generation)
  have guessed:
    "map_option fb_score
       (feedback (fst (handleDeepfakeGuess demo_services challenge_state Authentic))) =
       Some 0 \<and>
     \<not> list_ex is_api_call
       (fst (snd (handleDeepfakeGuess demo_services challenge_state Authentic)))"
    using outcome_sources
        [where st = challenge_state and svc = demo_services and solution = Synthetic and
          guess = Authentic and svc' = demo_services]
      start_demo
    by simp
  from analysed started guessed start_demo show ?thesis
    by simp
qed

lemma produced_by_api_needs_call:
  "\<not> list_ex is_api_call events \<Longrightarrow> \<not> produced_by_api svc events (Some result)"
proof -
  have "is_reply_of svc result ev \<Longrightarrow> is_api_call ev" for ev
    by (cases ev) simp_all
  then show "\<not> list_ex is_api_call events \<Longrightarrow> \<not> produced_by_api svc events (Some result)"
    by (auto simp: produced_by_api_def list_ex_iff)
qed

text \<open>
  C7 as stated fails: after a deepfake challenge has been started, the outcome shown for
  the guess "authentic" is not the reply of any API call of the handler.
\<close>

theorem deepfake_outcome_counterexample:
  "\<not> produced_by_api demo_services
       (fst (snd (handleDeepfakeGuess demo_services challenge_state Authentic)))
       (feedback (fst (handleDeepfakeGuess demo_services challenge_state Authentic)))"
proof -
  let ?out = "handleDeepfakeGuess demo_services challenge_state Authentic"
  have "map_option fb_score (feedback (fst ?out)) =
      Some (if Authentic = Synthetic then 100 else 0)"
    by (rule handleDeepfakeGuess_local(1) [OF start_demo])
  then obtain result where fb: "feedback (fst ?out) = Some result"
    by (cases "feedback (fst ?out)") simp_all
  have "\<not> list_ex is_api_call (fst (snd ?out))"
    by (rule handleDeepfakeGuess_local(5) [OF start_demo])
  then show ?thesis
    unfolding fb by (rule produced_by_api_needs_call)
qed

end
